theory Spec2Isabelle
  imports Complex_Main
begin

section \<open>Python values and failures\<close>

text \<open>
  The numeric data of the program are numpy and Python floats; they are modelled by the
  real numbers, so every statement about sums and products below is a statement in exact
  arithmetic. A numpy vector is a list of reals, a numpy matrix the list of its rows.
  Indices are the non-negative integers that the shape tables, the handles and the loop
  counters of the program produce.
\<close>

datatype error = IndexError | KeyError | ValueError | ZeroDivisionError | LinAlgError

type_synonym vec = "real list"
type_synonym mat = "real list list"

text \<open>\<^verbatim>\<open>xs[i]\<close>: reading out of range raises IndexError.\<close>

definition getItem :: "'a list \<Rightarrow> nat \<Rightarrow> error + 'a" where
  "getItem xs i = (if i < length xs then Inr (xs ! i) else Inl IndexError)"

text \<open>\<^verbatim>\<open>xs[i] = v\<close>: writing out of range raises IndexError.\<close>

definition setItem :: "'a list \<Rightarrow> nat \<Rightarrow> 'a \<Rightarrow> error + 'a list" where
  "setItem xs i v = (if i < length xs then Inr (xs[i := v]) else Inl IndexError)"

text \<open>\<^verbatim>\<open>for x in xs: body\<close> on a state that the body may fail to produce.\<close>

fun foldE :: "('a \<Rightarrow> 's \<Rightarrow> error + 's) \<Rightarrow> 'a list \<Rightarrow> 's \<Rightarrow> error + 's" where
  "foldE f [] s = Inr s"
| "foldE f (x # xs) s = (case f x s of Inl e \<Rightarrow> Inl e | Inr s' \<Rightarrow> foldE f xs s')"

section \<open>Points and vertices\<close>

text \<open>
  Modelled from the spec: the classes Point and Vertex are not among the sources. A Point
  has three real coordinates and supports addition and multiplication by a scalar; a
  Vertex has a handle (its index in the global vectors), coordinates and a volume.
\<close>

datatype Point = Point real real real

fun getCoordinates :: "Point \<Rightarrow> vec" where
  "getCoordinates (Point a b c) = [a, b, c]"

fun padd :: "Point \<Rightarrow> Point \<Rightarrow> Point" where
  "padd (Point a b c) (Point a' b' c') = Point (a + a') (b + b') (c + c')"

fun pscale :: "real \<Rightarrow> Point \<Rightarrow> Point" where
  "pscale w (Point a b c) = Point (w * a) (w * b) (w * c)"

record Vertex =
  handle :: nat
  coordinates :: Point
  volume :: real

section \<open>Shapes (Shape.py)\<close>

datatype Shape = Triangle | Quadrilateral

definition Triangle_numberOfInnerFaces :: nat where
  "Triangle_numberOfInnerFaces = 3"

definition Quadrilateral_numberOfInnerFaces :: nat where
  "Quadrilateral_numberOfInnerFaces = 4"

definition Triangle_innerFaceNeighbourVertices :: "nat list list" where
  "Triangle_innerFaceNeighbourVertices = [[0, 1], [1, 2], [2, 0]]"

definition Quadrilateral_innerFaceNeighbourVertices :: "nat list list" where
  "Quadrilateral_innerFaceNeighbourVertices = [[0, 1], [1, 2], [2, 3], [3, 0]]"

definition Triangle_innerFaceShapeFunctionDerivatives :: "mat list" where
  "Triangle_innerFaceShapeFunctionDerivatives =
     [[[-1, -1], [1, 0], [0, 1]],
      [[-1, -1], [1, 0], [0, 1]],
      [[-1, -1], [1, 0], [0, 1]]]"

definition Quadrilateral_innerFaceShapeFunctionDerivatives :: "mat list" where
  "Quadrilateral_innerFaceShapeFunctionDerivatives =
     [[[-3/4, -1/2], [3/4, -1/2], [1/4, 1/2], [-1/4, 1/2]],
      [[-1/2, -1/4], [1/2, -3/4], [1/2, 3/4], [-1/2, 1/4]],
      [[-1/4, -1/2], [1/4, -1/2], [3/4, 1/2], [-3/4, 1/2]],
      [[-1/2, -3/4], [1/2, -1/4], [1/2, 1/4], [-1/2, 3/4]]]"

text \<open>The attribute lookups \<^verbatim>\<open>element.shape.<table>\<close>, by the class of the shape.\<close>

fun numberOfInnerFaces :: "Shape \<Rightarrow> nat" where
  "numberOfInnerFaces Triangle = Triangle_numberOfInnerFaces"
| "numberOfInnerFaces Quadrilateral = Quadrilateral_numberOfInnerFaces"

fun innerFaceNeighbourVertices :: "Shape \<Rightarrow> nat list list" where
  "innerFaceNeighbourVertices Triangle = Triangle_innerFaceNeighbourVertices"
| "innerFaceNeighbourVertices Quadrilateral = Quadrilateral_innerFaceNeighbourVertices"

fun innerFaceShapeFunctionDerivatives :: "Shape \<Rightarrow> mat list" where
  "innerFaceShapeFunctionDerivatives Triangle = Triangle_innerFaceShapeFunctionDerivatives"
| "innerFaceShapeFunctionDerivatives Quadrilateral =
     Quadrilateral_innerFaceShapeFunctionDerivatives"

text \<open>
  \<^verbatim>\<open>sum([w*vertex.getCoordinates() for w,vertex in zip([1,-0.5,-0.5],
  [elementCentroid, vertex1, vertex2])])\<close>, wrapped into a Point.
\<close>

definition areaVectorCoords :: "Point \<Rightarrow> Vertex \<Rightarrow> Vertex \<Rightarrow> Point" where
  "areaVectorCoords elementCentroid vertex1 vertex2 =
     padd (padd (pscale 1 elementCentroid) (pscale (- 0.5) (coordinates vertex1)))
          (pscale (- 0.5) (coordinates vertex2))"

text \<open>
  \<^verbatim>\<open>Triangle.getInnerFaceAreaVector\<close> and \<^verbatim>\<open>Quadrilateral.getInnerFaceAreaVector\<close>. Both
  bodies read \<^verbatim>\<open>Triangle.innerFaceNeighbourVertices\<close>, as the source does.
\<close>

definition Triangle_getInnerFaceAreaVector ::
    "nat \<Rightarrow> Point \<Rightarrow> Vertex list \<Rightarrow> error + Point" where
  "Triangle_getInnerFaceAreaVector local elementCentroid elementVertices =
     (case getItem Triangle_innerFaceNeighbourVertices local of
        Inl e \<Rightarrow> Inl e
      | Inr row \<Rightarrow>
         (case getItem row 0 of
            Inl e \<Rightarrow> Inl e
          | Inr i1 \<Rightarrow>
             (case getItem elementVertices i1 of
                Inl e \<Rightarrow> Inl e
              | Inr vertex1 \<Rightarrow>
                 (case getItem row 1 of
                    Inl e \<Rightarrow> Inl e
                  | Inr i2 \<Rightarrow>
                     (case getItem elementVertices i2 of
                        Inl e \<Rightarrow> Inl e
                      | Inr vertex2 \<Rightarrow>
                          Inr (areaVectorCoords elementCentroid vertex1 vertex2))))))"

definition Quadrilateral_getInnerFaceAreaVector ::
    "nat \<Rightarrow> Point \<Rightarrow> Vertex list \<Rightarrow> error + Point" where
  "Quadrilateral_getInnerFaceAreaVector local elementCentroid elementVertices =
     (case getItem Triangle_innerFaceNeighbourVertices local of
        Inl e \<Rightarrow> Inl e
      | Inr row \<Rightarrow>
         (case getItem row 0 of
            Inl e \<Rightarrow> Inl e
          | Inr i1 \<Rightarrow>
             (case getItem elementVertices i1 of
                Inl e \<Rightarrow> Inl e
              | Inr vertex1 \<Rightarrow>
                 (case getItem row 1 of
                    Inl e \<Rightarrow> Inl e
                  | Inr i2 \<Rightarrow>
                     (case getItem elementVertices i2 of
                        Inl e \<Rightarrow> Inl e
                      | Inr vertex2 \<Rightarrow>
                          Inr (areaVectorCoords elementCentroid vertex1 vertex2))))))"

fun getInnerFaceAreaVector :: "Shape \<Rightarrow> nat \<Rightarrow> Point \<Rightarrow> Vertex list \<Rightarrow> error + Point" where
  "getInnerFaceAreaVector Triangle = Triangle_getInnerFaceAreaVector"
| "getInnerFaceAreaVector Quadrilateral = Quadrilateral_getInnerFaceAreaVector"

section \<open>numpy operations\<close>

definition bindE :: "error + 'a \<Rightarrow> ('a \<Rightarrow> error + 'b) \<Rightarrow> error + 'b" where
  "bindE m f = (case m of Inl e \<Rightarrow> Inl e | Inr v \<Rightarrow> f v)"

text \<open>The number of columns of a matrix with at least one row.\<close>

definition ncols :: "mat \<Rightarrow> nat" where
  "ncols m = (case m of [] \<Rightarrow> 0 | r # _ \<Rightarrow> length r)"

definition column :: "mat \<Rightarrow> nat \<Rightarrow> vec" where
  "column m j = map (\<lambda>r. r ! j) m"

definition dot :: "vec \<Rightarrow> vec \<Rightarrow> real" where
  "dot u v = sum_list (map2 (*) u v)"

text \<open>\<^verbatim>\<open>np.transpose(m)\<close> for a matrix with at least one row.\<close>

definition transpose_np :: "mat \<Rightarrow> mat" where
  "transpose_np m = map (column m) [0..<ncols m]"

text \<open>
  \<^verbatim>\<open>np.matmul(a, b)\<close> for matrices with at least one row each: the inner dimensions must
  agree, or numpy raises ValueError.
\<close>

definition matmul :: "mat \<Rightarrow> mat \<Rightarrow> error + mat" where
  "matmul a b =
     (if ncols a \<noteq> length b then Inl ValueError
      else Inr (map (\<lambda>r. map (\<lambda>j. dot r (column b j)) [0..<ncols b]) a))"

text \<open>
  \<^verbatim>\<open>np.matmul(np.transpose(rows), v)\<close> for a matrix given by its rows and a vector: the
  contracted dimension is the number of rows, which must be the length of \<open>v\<close>; the result
  has one entry per column. Written as one operation because the transpose of a matrix
  without rows is not a list of rows.
\<close>

definition matmul_transpose_vec :: "mat \<Rightarrow> vec \<Rightarrow> error + vec" where
  "matmul_transpose_vec rows v =
     (if length rows \<noteq> length v then Inl ValueError
      else Inr (map (\<lambda>j. dot (column rows j) v) [0..<ncols rows]))"

text \<open>
  \<^verbatim>\<open>np.linalg.inv\<close> on the 2 x 2 matrices that the two-dimensional shapes produce: a singular
  matrix raises LinAlgError. Matrices of another size are outside this model and are
  reported as LinAlgError as well.
\<close>

fun linalg_inv :: "mat \<Rightarrow> error + mat" where
  "linalg_inv [[a, b], [c, d]] =
     (if a * d - b * c = 0 then Inl LinAlgError
      else Inr [[d / (a * d - b * c), - b / (a * d - b * c)],
                [- c / (a * d - b * c), a / (a * d - b * c)]])"
| "linalg_inv m = Inl LinAlgError"

text \<open>\<^verbatim>\<open>np.linalg.norm\<close> of a vector.\<close>

definition linalg_norm :: "vec \<Rightarrow> real" where
  "linalg_norm v = sqrt (sum_list (map (\<lambda>c. c * c) v))"

text \<open>\<^verbatim>\<open>m[r][c] = g(m[r][c])\<close>, the in-place update of one matrix entry.\<close>

definition updateEntry :: "mat \<Rightarrow> nat \<Rightarrow> nat \<Rightarrow> (real \<Rightarrow> real) \<Rightarrow> error + mat" where
  "updateEntry m r c g =
     (if r < length m \<and> c < length (m ! r)
      then Inr (m[r := (m ! r)[c := g (m ! r ! c)]])
      else Inl IndexError)"

text \<open>Python's \<^verbatim>\<open>max\<close> of a list: ValueError on the empty list.\<close>

definition pymax :: "real list \<Rightarrow> error + real" where
  "pymax xs = (case xs of [] \<Rightarrow> Inl ValueError | y # ys \<Rightarrow> Inr (fold max ys y))"

section \<open>Elements and inner faces\<close>

text \<open>
  An inner face holds its local index, its area vector and its matrix of global
  derivatives; its handle and its centroid are read by none of the functions below and
  are left out. Its owning element is the element whose list of inner faces holds it,
  so \<^verbatim>\<open>innerFace.element\<close> is passed along with the face.
\<close>

record InnerFace =
  local :: nat
  area :: Point
  globalDerivatives :: mat

record Element =
  vertices :: "Vertex list"
  shape :: Shape
  innerFaces :: "InnerFace list"
  subelementVolumes :: vec

text \<open>
  The static methods \<^verbatim>\<open>Triangle._is\<close> and \<^verbatim>\<open>Quadrilateral._is\<close> (Shape.py), by which an
  element is given its shape.
\<close>

definition Triangle_is :: "Element \<Rightarrow> bool" where
  "Triangle_is elem = (if length (vertices elem) = 3 then True else False)"

definition Quadrilateral_is :: "Element \<Rightarrow> bool" where
  "Quadrilateral_is elem = (if length (vertices elem) = 4 then True else False)"

text \<open>
  \<^verbatim>\<open>InnerFace.calculateGlobalDerivatives\<close> (InnerFace.py). The method
  \<^verbatim>\<open>Element.getTransposedJacobian\<close> is not among the sources and is a parameter.
\<close>

definition InnerFace_calculateGlobalDerivatives ::
    "(Element \<Rightarrow> mat \<Rightarrow> error + mat) \<Rightarrow> Element \<Rightarrow> InnerFace \<Rightarrow> error + InnerFace" where
  "InnerFace_calculateGlobalDerivatives getTransposedJacobian element innerFace =
     bindE (getItem (innerFaceShapeFunctionDerivatives (shape element)) (local innerFace))
       (\<lambda>derivatives.
     bindE (getTransposedJacobian element derivatives) (\<lambda>jacobian.
     bindE (linalg_inv jacobian) (\<lambda>inverse.
     bindE (matmul inverse (transpose_np derivatives)) (\<lambda>g.
     Inr (innerFace\<lparr>globalDerivatives := g\<rparr>)))))"

text \<open>
  The body of the inner loop of \<^verbatim>\<open>HeatTransfer2D.calculateInnerFacesGlobalDerivatives\<close>
  (HeatTransfer2D.py). The method \<^verbatim>\<open>Element.getJacobian\<close> is not among the sources and is
  a parameter.
\<close>

definition refreshInnerFace ::
    "(Element \<Rightarrow> mat \<Rightarrow> error + mat) \<Rightarrow> Element \<Rightarrow> InnerFace \<Rightarrow> error + InnerFace" where
  "refreshInnerFace getJacobian element innerFace =
     bindE (getItem (innerFaceShapeFunctionDerivatives (shape element)) (local innerFace))
       (\<lambda>derivatives.
     bindE (getJacobian element derivatives) (\<lambda>jacobian.
     bindE (linalg_inv jacobian) (\<lambda>inverse.
     bindE (matmul inverse (transpose_np derivatives)) (\<lambda>g.
     Inr (innerFace\<lparr>globalDerivatives := g\<rparr>)))))"

text \<open>\<^verbatim>\<open>for innerFace in element.innerFaces\<close>, collecting the refreshed faces.\<close>

fun refreshInnerFaces ::
    "(Element \<Rightarrow> mat \<Rightarrow> error + mat) \<Rightarrow> Element \<Rightarrow> InnerFace list \<Rightarrow> error + InnerFace list" where
  "refreshInnerFaces getJacobian element [] = Inr []"
| "refreshInnerFaces getJacobian element (innerFace # rest) =
     bindE (refreshInnerFace getJacobian element innerFace) (\<lambda>f.
     bindE (refreshInnerFaces getJacobian element rest) (\<lambda>fs. Inr (f # fs)))"

definition refreshElement ::
    "(Element \<Rightarrow> mat \<Rightarrow> error + mat) \<Rightarrow> Element \<Rightarrow> error + Element" where
  "refreshElement getJacobian element =
     bindE (refreshInnerFaces getJacobian element (innerFaces element)) (\<lambda>fs.
     Inr (element\<lparr>innerFaces := fs\<rparr>))"

text \<open>\<^verbatim>\<open>for element in self.grid.elements\<close>.\<close>

fun calculateInnerFacesGlobalDerivatives ::
    "(Element \<Rightarrow> mat \<Rightarrow> error + mat) \<Rightarrow> Element list \<Rightarrow> error + Element list" where
  "calculateInnerFacesGlobalDerivatives getJacobian [] = Inr []"
| "calculateInnerFacesGlobalDerivatives getJacobian (element # rest) =
     bindE (refreshElement getJacobian element) (\<lambda>e.
     bindE (calculateInnerFacesGlobalDerivatives getJacobian rest) (\<lambda>es. Inr (e # es)))"

section \<open>The local matrix (HeatTransfer2D.py, computeLocalMatrix)\<close>

text \<open>
  The flux vector of one inner face: the derivatives are padded to three rows when they
  have two, the last row and the last coordinate of the area vector are dropped, and the
  product is scaled by the permeability.
\<close>

definition diffusiveFlux :: "real \<Rightarrow> InnerFace \<Rightarrow> error + vec" where
  "diffusiveFlux permeability innerFace =
     (let derivatives = globalDerivatives innerFace;
          derivatives = (if length derivatives = 2
                         then derivatives @ [replicate (length (derivatives ! 0)) 0]
                         else derivatives)
      in bindE (matmul_transpose_vec (butlast derivatives)
                  (butlast (getCoordinates (area innerFace))))
           (\<lambda>product. Inr (map (\<lambda>c. permeability * c) product)))"

text \<open>The body of \<^verbatim>\<open>for i in range(numberOfVertices)\<close>.\<close>

definition addCoefficient :: "nat \<Rightarrow> nat \<Rightarrow> vec \<Rightarrow> nat \<Rightarrow> mat \<Rightarrow> error + mat" where
  "addCoefficient backwardVertexLocalHandle forwardVertexLocalHandle flux i localMatrix =
     bindE (getItem flux i) (\<lambda>fi.
       (let coefficient = - 1 * fi in
        bindE (updateEntry localMatrix backwardVertexLocalHandle i (\<lambda>x. x + coefficient))
          (\<lambda>m. updateEntry m forwardVertexLocalHandle i (\<lambda>x. x - coefficient))))"

text \<open>The body of \<^verbatim>\<open>for innerFace in element.innerFaces\<close>.\<close>

definition addInnerFace :: "Element \<Rightarrow> real \<Rightarrow> InnerFace \<Rightarrow> mat \<Rightarrow> error + mat" where
  "addInnerFace element permeability innerFace localMatrix =
     bindE (diffusiveFlux permeability innerFace) (\<lambda>flux.
     bindE (getItem (innerFaceNeighbourVertices (shape element)) (local innerFace)) (\<lambda>row.
     bindE (getItem row 0) (\<lambda>backwardVertexLocalHandle.
     bindE (getItem row 1) (\<lambda>forwardVertexLocalHandle.
       foldE (addCoefficient backwardVertexLocalHandle forwardVertexLocalHandle flux)
         [0..<length (vertices element)] localMatrix))))"

definition computeLocalMatrix :: "Element \<Rightarrow> real \<Rightarrow> bool \<Rightarrow> error + mat" where
  "computeLocalMatrix element permeability b =
     (let numberOfVertices = length (vertices element);
          localMatrix = replicate numberOfVertices (replicate numberOfVertices 0)
      in foldE (addInnerFace element permeability) (innerFaces element) localMatrix)"

section \<open>The grid and the problem data\<close>

text \<open>
  Modelled from the spec: the classes Grid, Region, Boundary, Facet, OuterFace, the
  boundary conditions, ProblemData2D, Timer and CgnsSaver are not among the sources; the
  records hold the attributes that HeatTransfer2D.py reads. The elements are owned by the
  grid, and a region refers to its elements by their positions in \<^verbatim>\<open>grid.elements\<close>: the
  inner faces that the set-up refreshes through \<^verbatim>\<open>grid.elements\<close> are the ones that the
  assembly reads through \<^verbatim>\<open>region.elements\<close>. A position outside the grid stands for no
  Python object and is reported as IndexError. Vertices are never modified and are
  held by value.
\<close>

record Region =
  handle :: nat
  elements :: "nat list"

record OuterFace =
  handle :: nat
  vertex :: Vertex
  area :: Point

record Facet =
  outerFaces :: "OuterFace list"

record Boundary =
  vertices :: "Vertex list"
  facets :: "Facet list"

record BoundaryCondition =
  boundary :: Boundary
  getValue :: "nat \<Rightarrow> real"

record Grid =
  vertices :: "Vertex list"
  elements :: "Element list"
  regions :: "Region list"

record ProblemData2D =
  propertyData :: "nat \<rightharpoonup> (string \<rightharpoonup> real)"
  neumannBoundaries :: "BoundaryCondition list"
  dirichletBoundaries :: "BoundaryCondition list"
  initialValue :: real
  timeStep :: real
  finalTime :: real
  tolerance :: real
  maxNumberOfIterations :: int

text \<open>
  The timer keeps the simulated time, advanced by the time step once per iteration; its
  named spans only measure wall-clock time and are left out.
\<close>

record Timer =
  timeStep :: real
  currentTime :: real

definition newTimer :: "real \<Rightarrow> Timer" where
  "newTimer dt = \<lparr>timeStep = dt, currentTime = 0\<rparr>"

definition incrementTime :: "Timer \<Rightarrow> Timer" where
  "incrementTime t = t\<lparr>currentTime := currentTime t + Timer.timeStep t\<rparr>"

definition getCurrentTime :: "Timer \<Rightarrow> real" where
  "getCurrentTime t = currentTime t"

text \<open>
  The result sink receives the temperature field and the simulated time once per
  iteration and is finalized once at shutdown.
\<close>

record CgnsSaver =
  saved :: "(vec \<times> real) list"
  finalized :: bool

definition newCgnsSaver :: CgnsSaver where
  "newCgnsSaver = \<lparr>saved = [], finalized = False\<rparr>"

definition save :: "CgnsSaver \<Rightarrow> vec \<Rightarrow> real \<Rightarrow> CgnsSaver" where
  "save c field time = c\<lparr>saved := saved c @ [(field, time)]\<rparr>"

definition CgnsSaver_finalize :: "CgnsSaver \<Rightarrow> CgnsSaver" where
  "CgnsSaver_finalize c = c\<lparr>finalized := True\<rparr>"

text \<open>\<^verbatim>\<open>propertyData[handle][name]\<close>: a missing key raises KeyError.\<close>

definition getProperty :: "ProblemData2D \<Rightarrow> nat \<Rightarrow> string \<Rightarrow> error + real" where
  "getProperty pd h name =
     (case propertyData pd h of
        None \<Rightarrow> Inl KeyError
      | Some props \<Rightarrow> (case props name of None \<Rightarrow> Inl KeyError | Some v \<Rightarrow> Inr v))"

text \<open>Python's division of floats: ZeroDivisionError on a zero divisor.\<close>

definition pydiv :: "real \<Rightarrow> real \<Rightarrow> error + real" where
  "pydiv a b = (if b = 0 then Inl ZeroDivisionError else Inr (a / b))"

section \<open>The solver (HeatTransfer2D.py)\<close>

text \<open>
  The attributes of a HeatTransfer2D object. \<^verbatim>\<open>independent\<close> does not exist before the
  first assembly; it starts as the empty vector here.
\<close>

record HeatTransfer2D =
  problemData :: ProblemData2D
  grid :: Grid
  timer :: Timer
  cgnsSaver :: CgnsSaver
  numericalTemperature :: vec
  oldTemperature :: vec
  matrix :: mat
  independent :: vec
  difference :: real
  iteration :: nat
  converged :: bool

subsection \<open>addToLinearSystem\<close>

text \<open>The block \<^verbatim>\<open># Internal Heat Generation\<close>.\<close>

definition heatGenerationVertex :: "real \<Rightarrow> Vertex \<Rightarrow> vec \<Rightarrow> error + vec" where
  "heatGenerationVertex heatGeneration v ind =
     setItem ind (Vertex.handle v) (volume v * heatGeneration)"

definition heatGenerationElement ::
    "Element list \<Rightarrow> real \<Rightarrow> nat \<Rightarrow> vec \<Rightarrow> error + vec" where
  "heatGenerationElement es heatGeneration i ind =
     bindE (getItem es i) (\<lambda>element.
       foldE (heatGenerationVertex heatGeneration) (Element.vertices element) ind)"

definition heatGenerationRegion ::
    "ProblemData2D \<Rightarrow> Element list \<Rightarrow> Region \<Rightarrow> vec \<Rightarrow> error + vec" where
  "heatGenerationRegion pd es region ind =
     bindE (getProperty pd (Region.handle region) ''InternalHeatGeneration'')
       (\<lambda>heatGeneration.
          foldE (heatGenerationElement es heatGeneration) (Region.elements region) ind)"

definition internalHeatGeneration ::
    "ProblemData2D \<Rightarrow> Element list \<Rightarrow> Region list \<Rightarrow> vec \<Rightarrow> error + vec" where
  "internalHeatGeneration pd es rs ind = foldE (heatGenerationRegion pd es) rs ind"

text \<open>
  The block \<^verbatim>\<open># TransientTermAdder and DiffusiveFluxAdder\<close>, on the pair of the independent
  vector and the matrix. \<open>first\<close> is \<^verbatim>\<open>self.iteration == 0\<close>.
\<close>

definition scatterEntry ::
    "mat \<Rightarrow> nat \<Rightarrow> nat \<Rightarrow> (nat \<times> Vertex) \<Rightarrow> mat \<Rightarrow> error + mat" where
  "scatterEntry localMatrixFlux index loc qq m =
     (case qq of (qLocalIndex, q) \<Rightarrow>
        bindE (getItem localMatrixFlux loc) (\<lambda>row.
        bindE (getItem row qLocalIndex) (\<lambda>c.
          updateEntry m index (Vertex.handle q) (\<lambda>x. x + c))))"

definition transientVertex ::
    "bool \<Rightarrow> vec \<Rightarrow> real \<Rightarrow> Element \<Rightarrow> mat \<Rightarrow> (nat \<times> Vertex) \<Rightarrow> vec \<times> mat
       \<Rightarrow> error + vec \<times> mat" where
  "transientVertex first old accumulation element localMatrixFlux lv im =
     (case lv of (loc, v) \<Rightarrow> (case im of (ind, m) \<Rightarrow>
        (let index = Vertex.handle v in
         bindE (getItem (subelementVolumes element) loc) (\<lambda>sv.
         bindE (getItem old (Vertex.handle v)) (\<lambda>t.
         bindE (getItem ind index) (\<lambda>x.
         bindE (setItem ind index (x + sv * accumulation * t)) (\<lambda>ind'.
           if first then
             bindE (updateEntry m index index (\<lambda>x. x + sv * accumulation)) (\<lambda>m1.
             bindE (foldE (scatterEntry localMatrixFlux index loc)
                      (enumerate 0 (Element.vertices element)) m1) (\<lambda>m2.
               Inr (ind', m2)))
           else Inr (ind', m))))))))"

definition transientElement ::
    "bool \<Rightarrow> vec \<Rightarrow> Element list \<Rightarrow> real \<Rightarrow> real \<Rightarrow> nat \<Rightarrow> vec \<times> mat
       \<Rightarrow> error + vec \<times> mat" where
  "transientElement first old es conductivity accumulation i im =
     bindE (getItem es i) (\<lambda>element.
     bindE (computeLocalMatrix element conductivity first) (\<lambda>localMatrixFlux.
       foldE (transientVertex first old accumulation element localMatrixFlux)
         (enumerate 0 (Element.vertices element)) im))"

definition transientRegion ::
    "ProblemData2D \<Rightarrow> real \<Rightarrow> bool \<Rightarrow> vec \<Rightarrow> Element list \<Rightarrow> Region \<Rightarrow> vec \<times> mat
       \<Rightarrow> error + vec \<times> mat" where
  "transientRegion pd dt first old es region im =
     bindE (getProperty pd (Region.handle region) ''Density'') (\<lambda>density.
     bindE (getProperty pd (Region.handle region) ''HeatCapacity'') (\<lambda>heatCapacity.
     bindE (getProperty pd (Region.handle region) ''Conductivity'') (\<lambda>conductivity.
     bindE (pydiv (density * heatCapacity) dt) (\<lambda>accumulation.
       foldE (transientElement first old es conductivity accumulation)
         (Region.elements region) im))))"

definition transientTermAndDiffusiveFlux ::
    "ProblemData2D \<Rightarrow> real \<Rightarrow> bool \<Rightarrow> vec \<Rightarrow> Element list \<Rightarrow> Region list \<Rightarrow> vec \<times> mat
       \<Rightarrow> error + vec \<times> mat" where
  "transientTermAndDiffusiveFlux pd dt first old es rs im =
     foldE (transientRegion pd dt first old es) rs im"

text \<open>The block \<^verbatim>\<open># NeumannBoundaryAdder\<close>.\<close>

definition neumannOuterFace :: "BoundaryCondition \<Rightarrow> OuterFace \<Rightarrow> vec \<Rightarrow> error + vec" where
  "neumannOuterFace bCondition outerFace ind =
     bindE (getItem ind (Vertex.handle (vertex outerFace))) (\<lambda>x.
       setItem ind (Vertex.handle (vertex outerFace))
         (x + - 1 * getValue bCondition (OuterFace.handle outerFace)
                * linalg_norm (getCoordinates (OuterFace.area outerFace))))"

definition neumannBoundaryAdder :: "BoundaryCondition list \<Rightarrow> vec \<Rightarrow> error + vec" where
  "neumannBoundaryAdder bcs ind =
     foldE (\<lambda>bCondition.
        foldE (\<lambda>facet. foldE (neumannOuterFace bCondition) (outerFaces facet))
          (facets (boundary bCondition))) bcs ind"

text \<open>The block \<^verbatim>\<open># DirichletBoundaryAdder\<close>: first the independent vector.\<close>

definition dirichletVertex :: "BoundaryCondition \<Rightarrow> Vertex \<Rightarrow> vec \<Rightarrow> error + vec" where
  "dirichletVertex bCondition v ind =
     setItem ind (Vertex.handle v) (getValue bCondition (Vertex.handle v))"

definition dirichletBoundaryAdder :: "BoundaryCondition list \<Rightarrow> vec \<Rightarrow> error + vec" where
  "dirichletBoundaryAdder bcs ind =
     foldE (\<lambda>bCondition. foldE (dirichletVertex bCondition)
                            (Boundary.vertices (boundary bCondition))) bcs ind"

text \<open>
  Then, under \<^verbatim>\<open>if self.iteration == 0\<close>, the rows of the matrix. Assigning
  \<^verbatim>\<open>np.zeros(n)\<close> to a row needs a row of length \<open>n\<close> (or \<open>n = 1\<close>, which numpy broadcasts),
  and raises ValueError otherwise. The count \<^verbatim>\<open>numberOfVertices\<close> and the array \<^verbatim>\<open>rows\<close>
  of the source are never read.
\<close>

definition dirichletRow :: "nat \<Rightarrow> Vertex \<Rightarrow> mat \<Rightarrow> error + mat" where
  "dirichletRow n v m =
     bindE (getItem m (Vertex.handle v)) (\<lambda>row.
       if n = length row \<or> n = 1 then
         bindE (setItem m (Vertex.handle v) (replicate (length row) 0)) (\<lambda>m1.
           updateEntry m1 (Vertex.handle v) (Vertex.handle v) (\<lambda>x. 1))
       else Inl ValueError)"

definition dirichletRows :: "nat \<Rightarrow> BoundaryCondition list \<Rightarrow> mat \<Rightarrow> error + mat" where
  "dirichletRows n bcs m =
     foldE (\<lambda>bCondition. foldE (dirichletRow n) (Boundary.vertices (boundary bCondition)))
       bcs m"

definition addToLinearSystem :: "HeatTransfer2D \<Rightarrow> error + HeatTransfer2D" where
  "addToLinearSystem self =
     (let pd = problemData self;
          n = length (Grid.vertices (grid self));
          es = Grid.elements (grid self);
          rs = regions (grid self);
          first = (iteration self = 0)
      in
      bindE (internalHeatGeneration pd es rs (replicate n 0)) (\<lambda>ind1.
      bindE (transientTermAndDiffusiveFlux pd (Timer.timeStep (timer self)) first
               (oldTemperature self) es rs (ind1, matrix self)) (\<lambda>im.
      bindE (neumannBoundaryAdder (neumannBoundaries pd) (fst im)) (\<lambda>ind3.
      bindE (dirichletBoundaryAdder (dirichletBoundaries pd) ind3) (\<lambda>ind4.
      bindE (if first then dirichletRows n (dirichletBoundaries pd) (snd im)
             else Inr (snd im)) (\<lambda>m5.
        Inr (self\<lparr>independent := ind4, matrix := m5\<rparr>)))))))"

subsection \<open>solveLinearSystem, checkConvergence and the main loop\<close>

text \<open>\<^verbatim>\<open>np.linalg.solve\<close> is a parameter: it returns the solution or raises.\<close>

definition solveLinearSystem ::
    "(mat \<Rightarrow> vec \<Rightarrow> error + vec) \<Rightarrow> HeatTransfer2D \<Rightarrow> error + HeatTransfer2D" where
  "solveLinearSystem solve self =
     bindE (solve (matrix self) (independent self)) (\<lambda>t.
       Inr (self\<lparr>numericalTemperature := t\<rparr>))"

definition checkConvergence :: "HeatTransfer2D \<Rightarrow> error + bool \<times> HeatTransfer2D" where
  "checkConvergence self =
     bindE (pymax (map2 (\<lambda>temp oldTemp. \<bar>temp - oldTemp\<bar>)
                     (numericalTemperature self) (oldTemperature self))) (\<lambda>d.
       (let self1 = self\<lparr>difference := d\<rparr>;
            self2 = self1\<lparr>oldTemperature := numericalTemperature self1\<rparr>
        in Inr (if getCurrentTime (timer self2) > finalTime (problemData self2) then True
                else if iteration self2 > 0
                     then difference self2 < tolerance (problemData self2)
                     else False,
                self2)))"

text \<open>
  The body of the loop of \<^verbatim>\<open>run\<close>. Printing changes no attribute, and it reads only what
  settings and the assembly of the same pass have read before it.
\<close>

definition loopBody ::
    "(mat \<Rightarrow> vec \<Rightarrow> error + vec) \<Rightarrow> HeatTransfer2D \<Rightarrow> error + HeatTransfer2D" where
  "loopBody solve self =
     bindE (addToLinearSystem self) (\<lambda>self1.
     bindE (solveLinearSystem solve self1) (\<lambda>self2.
       (let self3 = self2\<lparr>timer := incrementTime (timer self2)\<rparr>;
            self4 = self3\<lparr>cgnsSaver := save (cgnsSaver self3) (numericalTemperature self3)
                                        (getCurrentTime (timer self3))\<rparr>
        in bindE (checkConvergence self4) (\<lambda>cs.
             (let self5 = (snd cs)\<lparr>converged := fst cs\<rparr>
              in Inr (self5\<lparr>iteration := iteration self5 + 1\<rparr>))))))"

text \<open>
  \<^verbatim>\<open>run\<close>: the loop goes on while the run has not converged and the iteration count is
  below the cap. Every pass of the body adds one to the count, so the loop ends.
\<close>

function run ::
    "(mat \<Rightarrow> vec \<Rightarrow> error + vec) \<Rightarrow> HeatTransfer2D \<Rightarrow> error + HeatTransfer2D" where
  "run solve self =
     (if \<not> converged self
         \<and> int (iteration self) < maxNumberOfIterations (problemData self)
      then (case loopBody solve self of
              Inl e \<Rightarrow> Inl e
            | Inr self' \<Rightarrow> run solve self')
      else Inr self)"
  by pat_completeness auto
termination
proof (relation "measure (\<lambda>(solve, self).
         nat (maxNumberOfIterations (problemData self) - int (iteration self)))")
  show "wf (measure (\<lambda>(solve, self).
         nat (maxNumberOfIterations (problemData self) - int (iteration self))))"
    by simp
next
  fix solve :: "mat \<Rightarrow> vec \<Rightarrow> error + vec" and self self' :: HeatTransfer2D
  assume guard: "\<not> converged self
      \<and> int (iteration self) < maxNumberOfIterations (problemData self)"
    and body: "loopBody solve self = Inr self'"
  from body obtain s1 s2 cs where
      s1: "addToLinearSystem self = Inr s1"
    and s2: "solveLinearSystem solve s1 = Inr s2"
    and cs: "checkConvergence
               (s2\<lparr>timer := incrementTime (timer s2),
                   cgnsSaver := save (cgnsSaver s2) (numericalTemperature s2)
                                  (getCurrentTime (incrementTime (timer s2)))\<rparr>) = Inr cs"
    and self': "self' = (snd cs)\<lparr>converged := fst cs,
                                   iteration := iteration (snd cs) + 1\<rparr>"
    by (auto simp: loopBody_def bindE_def Let_def split: sum.splits)
  have a: "iteration s1 = iteration self \<and> problemData s1 = problemData self"
    using s1 by (auto simp: addToLinearSystem_def bindE_def Let_def split: sum.splits)
  have b: "iteration s2 = iteration s1 \<and> problemData s2 = problemData s1"
    using s2 by (auto simp: solveLinearSystem_def bindE_def split: sum.splits)
  have c: "iteration (snd cs) = iteration s2 \<and> problemData (snd cs) = problemData s2"
    using cs by (auto simp: checkConvergence_def bindE_def Let_def split: sum.splits)
  have "iteration self' = iteration self + 1 \<and> problemData self' = problemData self"
    using a b c self' by simp
  with guard show "((solve, self'), (solve, self)) \<in> measure (\<lambda>(solve, self).
         nat (maxNumberOfIterations (problemData self) - int (iteration self)))"
    by simp
qed

declare run.simps [simp del]

text \<open>
  \<^verbatim>\<open>settings\<close>: the problem data and the grid come from the readers; the inner faces are
  refreshed and the fields, the matrix and the counters are initialised.
\<close>

definition settings ::
    "(Element \<Rightarrow> mat \<Rightarrow> error + mat) \<Rightarrow> ProblemData2D \<Rightarrow> Grid \<Rightarrow> error + HeatTransfer2D" where
  "settings jacobianOf pd g =
     bindE (calculateInnerFacesGlobalDerivatives jacobianOf (Grid.elements g)) (\<lambda>es.
       (let n = length (Grid.vertices g) in
        Inr \<lparr>problemData = pd,
             grid = g\<lparr>elements := es\<rparr>,
             timer = newTimer (ProblemData2D.timeStep pd),
             cgnsSaver = newCgnsSaver,
             numericalTemperature = replicate n 0,
             oldTemperature = replicate n (initialValue pd),
             matrix = replicate n (replicate n 0),
             independent = [],
             difference = 0,
             iteration = 0,
             converged = False\<rparr>))"

text \<open>\<^verbatim>\<open>finalize\<close>: the result sink is finalized; the report of the timings is printed.\<close>

definition finalize :: "HeatTransfer2D \<Rightarrow> HeatTransfer2D" where
  "finalize self = self\<lparr>cgnsSaver := CgnsSaver_finalize (cgnsSaver self)\<rparr>"

text \<open>\<^verbatim>\<open>__init__\<close>: settings, run, finalize; an exception of a step leaves the constructor.\<close>

definition HeatTransfer2D_init ::
    "(Element \<Rightarrow> mat \<Rightarrow> error + mat) \<Rightarrow> (mat \<Rightarrow> vec \<Rightarrow> error + vec) \<Rightarrow> ProblemData2D \<Rightarrow> Grid
       \<Rightarrow> error + HeatTransfer2D" where
  "HeatTransfer2D_init jacobianOf solve pd g =
     bindE (settings jacobianOf pd g) (\<lambda>self.
     bindE (run solve self) (\<lambda>self'. Inr (finalize self')))"

section \<open>Statements of the specification, for comparison\<close>

text \<open>
  The area vector of an inner face as the specification words it: the centroid minus
  half of each of the two vertices that the shape's own table of neighbour vertices
  selects for the face.
\<close>

definition areaVector_spec :: "Shape \<Rightarrow> nat \<Rightarrow> Point \<Rightarrow> Vertex list \<Rightarrow> Point" where
  "areaVector_spec sh k c vs =
     (case (c, coordinates (vs ! (innerFaceNeighbourVertices sh ! k ! 0)),
               coordinates (vs ! (innerFaceNeighbourVertices sh ! k ! 1))) of
        (Point cx cy cz, Point ax ay az, Point bx by bz) \<Rightarrow>
          Point (cx - 0.5 * ax - 0.5 * bx) (cy - 0.5 * ay - 0.5 * by)
                (cz - 0.5 * az - 0.5 * bz))"

text \<open>
  The independent vector as the specification words it: on every iteration it is built
  again from zeros by the four passes of the assembly, in their order. Each pass is
  given by the list of its writes, a write being a handle and a value, in the order of
  the regions, of the elements of a region and of the vertices of an element (of the
  boundary conditions, of their facets and outer faces, of their vertices). The heat
  generation and the Dirichlet conditions assign their values; the transient term and
  the Neumann conditions add theirs to the entry. The value of a property that is missing
  is never used: the assembly raises KeyError then.
\<close>

definition propertyOf :: "ProblemData2D \<Rightarrow> nat \<Rightarrow> string \<Rightarrow> real" where
  "propertyOf pd h name = (case getProperty pd h name of Inr v \<Rightarrow> v | Inl e \<Rightarrow> 0)"

definition assign :: "vec \<Rightarrow> nat \<times> real \<Rightarrow> vec" where
  "assign a w = a[fst w := snd w]"

definition accumulate :: "vec \<Rightarrow> nat \<times> real \<Rightarrow> vec" where
  "accumulate a w = a[fst w := a ! fst w + snd w]"

definition heatGenerationWrites ::
    "ProblemData2D \<Rightarrow> Element list \<Rightarrow> Region list \<Rightarrow> (nat \<times> real) list" where
  "heatGenerationWrites pd es rs =
     concat (map (\<lambda>region. concat (map (\<lambda>i.
         map (\<lambda>v. (Vertex.handle v,
                   volume v * propertyOf pd (Region.handle region) ''InternalHeatGeneration''))
           (Element.vertices (es ! i)))
       (Region.elements region))) rs)"

definition transientAdditions ::
    "ProblemData2D \<Rightarrow> real \<Rightarrow> vec \<Rightarrow> Element list \<Rightarrow> Region list \<Rightarrow> (nat \<times> real) list" where
  "transientAdditions pd dt old es rs =
     concat (map (\<lambda>region. concat (map (\<lambda>i.
         map (\<lambda>lv. (Vertex.handle (snd lv),
                    subelementVolumes (es ! i) ! fst lv
                      * (propertyOf pd (Region.handle region) ''Density''
                           * propertyOf pd (Region.handle region) ''HeatCapacity'' / dt)
                      * old ! Vertex.handle (snd lv)))
           (enumerate 0 (Element.vertices (es ! i))))
       (Region.elements region))) rs)"

definition neumannAdditions :: "BoundaryCondition list \<Rightarrow> (nat \<times> real) list" where
  "neumannAdditions bcs =
     concat (map (\<lambda>bc. concat (map (\<lambda>facet.
         map (\<lambda>f. (Vertex.handle (vertex f),
                   - 1 * getValue bc (OuterFace.handle f)
                     * linalg_norm (getCoordinates (OuterFace.area f))))
           (outerFaces facet))
       (facets (boundary bc)))) bcs)"

definition dirichletWrites :: "BoundaryCondition list \<Rightarrow> (nat \<times> real) list" where
  "dirichletWrites bcs =
     concat (map (\<lambda>bc. map (\<lambda>v. (Vertex.handle v, getValue bc (Vertex.handle v)))
                         (Boundary.vertices (boundary bc))) bcs)"

definition rebuiltIndependent :: "HeatTransfer2D \<Rightarrow> vec" where
  "rebuiltIndependent self =
     (let pd = problemData self;
          es = Grid.elements (grid self);
          rs = regions (grid self);
          zeros = replicate (length (Grid.vertices (grid self))) 0;
          ind1 = foldl assign zeros (heatGenerationWrites pd es rs);
          ind2 = foldl accumulate ind1
                   (transientAdditions pd (Timer.timeStep (timer self)) (oldTemperature self)
                      es rs);
          ind3 = foldl accumulate ind2 (neumannAdditions (neumannBoundaries pd))
      in foldl assign ind3 (dirichletWrites (dirichletBoundaries pd)))"

text \<open>\<open>n\<close> passes of the body of the main loop, one after the other.\<close>

fun iterateBody ::
    "(mat \<Rightarrow> vec \<Rightarrow> error + vec) \<Rightarrow> nat \<Rightarrow> HeatTransfer2D \<Rightarrow> error + HeatTransfer2D" where
  "iterateBody solve 0 self = Inr self"
| "iterateBody solve (Suc n) self =
     (case loopBody solve self of
        Inl e \<Rightarrow> Inl e
      | Inr self' \<Rightarrow> iterateBody solve n self')"

section \<open>Notions used in the statements and proofs\<close>

text \<open>
  A pass over the independent vector overwrites the entries \<open>H\<close> when it keeps the length
  of the vector, leaves every entry outside \<open>H\<close> as it was, and neither its success nor
  the entries it leaves in \<open>H\<close> depend on the contents of the vector it starts from.
\<close>

definition overwrites :: "(vec \<Rightarrow> error + vec) \<Rightarrow> nat set \<Rightarrow> bool" where
  "overwrites F H \<longleftrightarrow>
     (\<forall>a a'. F a = Inr a' \<longrightarrow>
        length a' = length a
        \<and> (\<forall>i. i \<notin> H \<longrightarrow> a' ! i = a ! i)
        \<and> (\<forall>b. length b = length a \<longrightarrow> (\<exists>b'. F b = Inr b' \<and> (\<forall>i\<in>H. b' ! i = a' ! i))))"

text \<open>A square matrix of size \<open>n\<close>.\<close>

definition isMatrix :: "nat \<Rightarrow> mat \<Rightarrow> bool" where
  "isMatrix n m \<longleftrightarrow> length m = n \<and> (\<forall>r<n. length (m ! r) = n)"

text \<open>The number of vertices of an element of a shape.\<close>

definition vertexCount :: "Shape \<Rightarrow> nat" where
  "vertexCount sh = (case sh of Triangle \<Rightarrow> 3 | Quadrilateral \<Rightarrow> 4)"

text \<open>
  An inner face has been refreshed when its matrix of global derivatives is the product
  of some 2 x 2 matrix with the transposed table of local derivatives of its shape.
\<close>

definition refreshed :: "Shape \<Rightarrow> InnerFace \<Rightarrow> bool" where
  "refreshed sh face \<longleftrightarrow>
     local face < numberOfInnerFaces sh
     \<and> (\<exists>p q r s. matmul [[p, q], [r, s]]
                     (transpose_np (innerFaceShapeFunctionDerivatives sh ! local face))
                   = Inr (globalDerivatives face))"

text \<open>The handles that the assembly visits in an element and in a region, in order.\<close>

definition elementHandles :: "Element list \<Rightarrow> nat \<Rightarrow> nat list" where
  "elementHandles es i = map Vertex.handle (Element.vertices (es ! i))"

definition regionHandles :: "Element list \<Rightarrow> Region \<Rightarrow> nat list" where
  "regionHandles es r = concat (map (elementHandles es) (Region.elements r))"

text \<open>The handles that the boundary passes visit, in order.\<close>

definition dirichletHandles :: "BoundaryCondition list \<Rightarrow> nat list" where
  "dirichletHandles bcs =
     concat (map (\<lambda>bc. map Vertex.handle (Boundary.vertices (boundary bc))) bcs)"

definition neumannHandles :: "BoundaryCondition list \<Rightarrow> nat list" where
  "neumannHandles bcs =
     concat (map (\<lambda>bc. concat (map (\<lambda>facet. map (\<lambda>f. Vertex.handle (vertex f))
                                          (outerFaces facet))
                               (facets (boundary bc)))) bcs)"

section \<open>Example data\<close>

text \<open>
  \<^verbatim>\<open>Element.getJacobian\<close> is not among the sources and is a parameter of the refresh. The
  examples pass this function for it: the transposed table of local derivatives times the
  first two coordinates of the vertices. The stored derivatives of the example elements
  below are the ones that the refresh computes with it.
\<close>

definition vertexCoordinates :: "Element \<Rightarrow> mat" where
  "vertexCoordinates element =
     map (\<lambda>v. take 2 (getCoordinates (coordinates v))) (Element.vertices element)"

definition exampleJacobian :: "Element \<Rightarrow> mat \<Rightarrow> error + mat" where
  "exampleJacobian element localDerivatives =
     matmul (transpose_np localDerivatives) (vertexCoordinates element)"

text \<open>
  The unit square with its vertices in counter-clockwise order, and the triangle with
  vertices (0,0), (1,0), (1,1).
\<close>

definition unitSquare :: "Vertex list" where
  "unitSquare =
     [\<lparr>Vertex.handle = 0, coordinates = Point 0 0 0, volume = 1/4\<rparr>,
      \<lparr>Vertex.handle = 1, coordinates = Point 1 0 0, volume = 1/4\<rparr>,
      \<lparr>Vertex.handle = 2, coordinates = Point 1 1 0, volume = 1/4\<rparr>,
      \<lparr>Vertex.handle = 3, coordinates = Point 0 1 0, volume = 1/4\<rparr>]"

definition unitSquareElement :: Element where
  "unitSquareElement =
     \<lparr>Element.vertices = unitSquare,
      shape = Quadrilateral,
      innerFaces =
        [\<lparr>local = 0, InnerFace.area = Point 0 (1/2) 0,
          globalDerivatives = [[-3/4, 3/4, 1/4, -1/4], [-1/2, -1/2, 1/2, 1/2]]\<rparr>,
         \<lparr>local = 1, InnerFace.area = Point (-1/2) 0 0,
          globalDerivatives = [[-1/2, 1/2, 1/2, -1/2], [-1/4, -3/4, 3/4, 1/4]]\<rparr>,
         \<lparr>local = 2, InnerFace.area = Point 0 (-1/2) 0,
          globalDerivatives = [[-1/4, 1/4, 3/4, -3/4], [-1/2, -1/2, 1/2, 1/2]]\<rparr>,
         \<lparr>local = 3, InnerFace.area = Point (1/2) 0 0,
          globalDerivatives = [[-1/2, 1/2, 1/2, -1/2], [-3/4, -1/4, 1/4, 3/4]]\<rparr>],
      subelementVolumes = [1/4, 1/4, 1/4, 1/4]\<rparr>"

text \<open>
  The unit square cut into two triangles along its diagonal, each triangle a region of
  its own, with Dirichlet conditions on all four vertices; vertex 1 belongs to both
  conditions.
\<close>

definition exampleVertices :: "Vertex list" where
  "exampleVertices =
     [\<lparr>Vertex.handle = 0, coordinates = Point 0 0 0, volume = 1/3\<rparr>,
      \<lparr>Vertex.handle = 1, coordinates = Point 1 0 0, volume = 1/6\<rparr>,
      \<lparr>Vertex.handle = 2, coordinates = Point 1 1 0, volume = 1/3\<rparr>,
      \<lparr>Vertex.handle = 3, coordinates = Point 0 1 0, volume = 1/6\<rparr>]"

definition lowerTriangle :: Element where
  "lowerTriangle =
     \<lparr>Element.vertices = [exampleVertices ! 0, exampleVertices ! 1, exampleVertices ! 2],
      shape = Triangle,
      innerFaces =
        [\<lparr>local = 0, InnerFace.area = Point (1/6) (1/3) 0,
          globalDerivatives = [[-1, 1, 0], [0, -1, 1]]\<rparr>,
         \<lparr>local = 1, InnerFace.area = Point (-1/3) (-1/6) 0,
          globalDerivatives = [[-1, 1, 0], [0, -1, 1]]\<rparr>,
         \<lparr>local = 2, InnerFace.area = Point (1/6) (-1/6) 0,
          globalDerivatives = [[-1, 1, 0], [0, -1, 1]]\<rparr>],
      subelementVolumes = [1/6, 1/6, 1/6]\<rparr>"

definition upperTriangle :: Element where
  "upperTriangle =
     \<lparr>Element.vertices = [exampleVertices ! 0, exampleVertices ! 2, exampleVertices ! 3],
      shape = Triangle,
      innerFaces =
        [\<lparr>local = 0, InnerFace.area = Point (-1/6) (1/6) 0,
          globalDerivatives = [[0, 1, -1], [-1, 0, 1]]\<rparr>,
         \<lparr>local = 1, InnerFace.area = Point (-1/6) (-1/3) 0,
          globalDerivatives = [[0, 1, -1], [-1, 0, 1]]\<rparr>,
         \<lparr>local = 2, InnerFace.area = Point (1/3) (1/6) 0,
          globalDerivatives = [[0, 1, -1], [-1, 0, 1]]\<rparr>],
      subelementVolumes = [1/6, 1/6, 1/6]\<rparr>"

definition exampleRegions :: "Region list" where
  "exampleRegions =
     [\<lparr>Region.handle = 0, Region.elements = [0]\<rparr>,
      \<lparr>Region.handle = 1, Region.elements = [1]\<rparr>]"

definition exampleGrid :: Grid where
  "exampleGrid =
     \<lparr>Grid.vertices = exampleVertices,
      Grid.elements = [lowerTriangle, upperTriangle],
      regions = exampleRegions\<rparr>"

definition exampleDirichlet :: "BoundaryCondition list" where
  "exampleDirichlet =
     [\<lparr>boundary = \<lparr>Boundary.vertices = [exampleVertices ! 0, exampleVertices ! 1],
                    facets = []\<rparr>,
       getValue = (\<lambda>h. 1)\<rparr>,
      \<lparr>boundary = \<lparr>Boundary.vertices =
                      [exampleVertices ! 1, exampleVertices ! 2, exampleVertices ! 3],
                    facets = []\<rparr>,
       getValue = (\<lambda>h. 2)\<rparr>]"

definition exampleProblemData :: ProblemData2D where
  "exampleProblemData =
     \<lparr>propertyData =
        [0 \<mapsto> [''Density'' \<mapsto> 1, ''HeatCapacity'' \<mapsto> 1, ''Conductivity'' \<mapsto> 1,
                ''InternalHeatGeneration'' \<mapsto> 6],
         1 \<mapsto> [''Density'' \<mapsto> 1, ''HeatCapacity'' \<mapsto> 1, ''Conductivity'' \<mapsto> 1,
                ''InternalHeatGeneration'' \<mapsto> 12]],
      neumannBoundaries = [],
      dirichletBoundaries = exampleDirichlet,
      initialValue = 0,
      ProblemData2D.timeStep = 1,
      finalTime = 10,
      tolerance = 1/1000,
      maxNumberOfIterations = 1\<rparr>"

definition exampleSolver :: HeatTransfer2D where
  "exampleSolver =
     \<lparr>problemData = exampleProblemData,
      grid = exampleGrid,
      timer = \<lparr>Timer.timeStep = 1, currentTime = 1\<rparr>,
      cgnsSaver = newCgnsSaver,
      numericalTemperature = [1, 2, 2, 2],
      oldTemperature = [0, 0, 0, 0],
      matrix = [[1, 0, 0, 0], [0, 1, 0, 0], [0, 0, 1, 0], [0, 0, 0, 1]],
      independent = [1, 2, 2, 2],
      difference = 0,
      iteration = 1,
      converged = False\<rparr>"

text \<open>
  The same solver on a grid with a fifth vertex that belongs to no element and to no
  boundary, holding 9 in every entry of its independent vector.
\<close>

definition exampleWithOrphan :: HeatTransfer2D where
  "exampleWithOrphan =
     exampleSolver
       \<lparr>grid := exampleGrid
          \<lparr>Grid.vertices := exampleVertices
             @ [\<lparr>Vertex.handle = 4, coordinates = Point 2 2 0, volume = 0\<rparr>]\<rparr>,
        independent := [9, 9, 9, 9, 9]\<rparr>"

text \<open>
  The solver of the grid with the fifth vertex on a later iteration, with the
  temperatures 6, 12, 18, 24, 30 of the iteration before, a Neumann condition of value 3
  on an outer face of length 2 at vertex 2, and the first Dirichlet condition only.
\<close>

definition exampleNeumann :: "BoundaryCondition list" where
  "exampleNeumann =
     [\<lparr>boundary = \<lparr>Boundary.vertices = [],
                    facets = [\<lparr>outerFaces =
                      [\<lparr>OuterFace.handle = 0, vertex = exampleVertices ! 2,
                        OuterFace.area = Point 0 2 0\<rparr>]\<rparr>]\<rparr>,
       getValue = (\<lambda>h. 3)\<rparr>]"

definition exampleLater :: HeatTransfer2D where
  "exampleLater =
     exampleWithOrphan
       \<lparr>problemData := exampleProblemData
          \<lparr>neumannBoundaries := exampleNeumann,
           dirichletBoundaries := [exampleDirichlet ! 0]\<rparr>,
        oldTemperature := [6, 12, 18, 24, 30]\<rparr>"

section \<open>Basic facts\<close>

lemma bindE_Inl [simp]: "bindE (Inl e) f = Inl e"
  by (simp add: bindE_def)

lemma bindE_Inr [simp]: "bindE (Inr v) f = f v"
  by (simp add: bindE_def)

lemma bindE_eq_Inr: "bindE m f = Inr y \<longleftrightarrow> (\<exists>v. m = Inr v \<and> f v = Inr y)"
  by (cases m) simp_all

lemma setItem_Inr:
  "setItem xs i v = Inr ys \<longleftrightarrow> i < length xs \<and> ys = xs[i := v]"
  by (auto simp: setItem_def)

lemma getItem_Inr:
  "getItem xs i = Inr y \<longleftrightarrow> i < length xs \<and> y = xs ! i"
  by (auto simp: getItem_def)

lemma foldE_append: "foldE f (xs @ ys) s = bindE (foldE f xs s) (foldE f ys)"
  by (induction xs arbitrary: s) (simp_all split: sum.splits)

lemma foldE_invariant:
  assumes "foldE f xs s = Inr s'" and "P s"
    and "\<And>x a b. x \<in> set xs \<Longrightarrow> P a \<Longrightarrow> f x a = Inr b \<Longrightarrow> P b"
  shows "P s'"
  using assms
proof (induction xs arbitrary: s)
  case Nil
  then show ?case by simp
next
  case (Cons x xs)
  from Cons.prems(1) obtain a where a: "f x s = Inr a" and rest: "foldE f xs a = Inr s'"
    by (auto split: sum.splits)
  have "P a" by (rule Cons.prems(3)[OF _ Cons.prems(2) a]) simp
  show ?case
  proof (rule Cons.IH[OF rest \<open>P a\<close>])
    fix y c d assume "y \<in> set xs" "P c" "f y c = Inr d"
    then show "P d" using Cons.prems(3)[of y c d] by simp
  qed
qed

lemma foldE_preserves:
  assumes run: "foldE f xs s = Inr s'"
    and step: "\<And>x a b. x \<in> set xs \<Longrightarrow> f x a = Inr b \<Longrightarrow> g b = g a"
  shows "g s' = g s"
proof -
  have "g s' = g s"
  proof (rule foldE_invariant[OF run, where P = "\<lambda>a. g a = g s"])
    show "g s = g s" by simp
  next
    fix x a b assume "x \<in> set xs" "g a = g s" "f x a = Inr b"
    then show "g b = g s" using step[of x a b] by simp
  qed
  then show ?thesis .
qed

lemma foldE_mid:
  "foldE f (xs @ x # ys) s = Inr s' \<longleftrightarrow>
     (\<exists>a b. foldE f xs s = Inr a \<and> f x a = Inr b \<and> foldE f ys b = Inr s')"
  by (cases "f x (projr (foldE f xs s))"; cases "foldE f xs s")
     (auto simp: foldE_append bindE_eq_Inr)

lemma foldE_snoc:
  "foldE f (xs @ [x]) s = Inr s' \<longleftrightarrow> (\<exists>a. foldE f xs s = Inr a \<and> f x a = Inr s')"
  by (simp add: foldE_mid)

lemma foldE_total:
  assumes "P s"
    and "\<And>x a. x \<in> set xs \<Longrightarrow> P a \<Longrightarrow> \<exists>b. f x a = Inr b \<and> P b"
  shows "\<exists>s'. foldE f xs s = Inr s' \<and> P s'"
  using assms
proof (induction xs arbitrary: s)
  case Nil
  then show ?case by simp
next
  case (Cons x xs)
  from Cons.prems(2)[of x s] Cons.prems(1) obtain b where b: "f x s = Inr b" "P b" by auto
  from Cons.IH[OF b(2)] Cons.prems(2) obtain s' where "foldE f xs b = Inr s'" "P s'"
    by auto
  then show ?case using b(1) by simp
qed

lemma sum_list_update_real:
  fixes xs :: "real list"
  shows "k < length xs \<Longrightarrow> sum_list (xs[k := v]) = sum_list xs + v - xs ! k"
  by (induction xs arbitrary: k) (auto split: nat.splits)

lemma updateEntry_Inr:
  "updateEntry m r c g = Inr m' \<longleftrightarrow>
     r < length m \<and> c < length (m ! r) \<and> m' = m[r := (m ! r)[c := g (m ! r ! c)]]"
  by (auto simp: updateEntry_def)

lemma sum_list_zeros: "sum_list (replicate n (0::real)) = 0"
  by (induction n) simp_all

text \<open>Unfolding the example data and the operations on concrete arguments.\<close>

lemmas example_defs = exampleSolver_def exampleProblemData_def exampleGrid_def
  exampleRegions_def exampleDirichlet_def lowerTriangle_def upperTriangle_def
  exampleVertices_def

lemmas numpy_defs = getItem_def setItem_def ncols_def column_def dot_def matmul_def
  matmul_transpose_vec_def updateEntry_def transpose_np_def pydiv_def getProperty_def

lemmas localMatrix_defs = computeLocalMatrix_def addInnerFace_def diffusiveFlux_def
  addCoefficient_def Triangle_innerFaceNeighbourVertices_def

lemmas assembly_defs = addToLinearSystem_def internalHeatGeneration_def
  heatGenerationRegion_def heatGenerationElement_def heatGenerationVertex_def
  transientTermAndDiffusiveFlux_def transientRegion_def transientElement_def
  transientVertex_def scatterEntry_def neumannBoundaryAdder_def dirichletBoundaryAdder_def
  dirichletVertex_def dirichletRows_def dirichletRow_def

section \<open>The area vector of an inner face\<close>

lemma Triangle_getInnerFaceAreaVector_spec:
  assumes "k < numberOfInnerFaces Triangle" and "length vs = 3"
  shows "getInnerFaceAreaVector Triangle k c vs = Inr (areaVector_spec Triangle k c vs)"
proof -
  from assms(1) have "k = 0 \<or> k = 1 \<or> k = 2"
    by (auto simp: Triangle_numberOfInnerFaces_def)
  moreover obtain cx cy cz where c: "c = Point cx cy cz" by (cases c)
  ultimately show ?thesis using assms(2)
    by (auto simp: Triangle_getInnerFaceAreaVector_def Triangle_innerFaceNeighbourVertices_def
        getItem_def areaVectorCoords_def areaVector_spec_def split: Point.splits)
qed

text \<open>
  C1 (the code departs from the claim). For a quadrilateral the area vector of inner face
  2 is built from the vertices 2 and 0 that the triangle's table selects, not from the
  vertices 2 and 3 of the quadrilateral's own table, and inner face 3 raises IndexError:
  on the unit square with centroid (1/2, 1/2, 0) the code returns (0, 0, 0) for face 2
  where the centroid minus half of each neighbour vertex is (0, -1/2, 0).
\<close>

theorem Quadrilateral_getInnerFaceAreaVector_diverges:
  "numberOfInnerFaces Quadrilateral = 4
   \<and> Quadrilateral_getInnerFaceAreaVector 2 (Point (1/2) (1/2) 0) unitSquare = Inr (Point 0 0 0)
   \<and> areaVector_spec Quadrilateral 2 (Point (1/2) (1/2) 0) unitSquare = Point 0 (- 1/2) 0
   \<and> Quadrilateral_getInnerFaceAreaVector 3 (Point (1/2) (1/2) 0) unitSquare = Inl IndexError"
  by (simp add: Quadrilateral_getInnerFaceAreaVector_def Triangle_innerFaceNeighbourVertices_def
      Quadrilateral_innerFaceNeighbourVertices_def Quadrilateral_numberOfInnerFaces_def
      getItem_def areaVectorCoords_def areaVector_spec_def unitSquare_def)

section \<open>The local matrix\<close>

text \<open>
  C9. The result of computeLocalMatrix does not depend on its third argument: with the
  flag set and with the flag cleared the function returns the same matrix, or raises
  the same exception.
\<close>

theorem computeLocalMatrix_ignores_flag:
  "computeLocalMatrix element permeability True = computeLocalMatrix element permeability False"
  by (simp add: computeLocalMatrix_def)

lemma isMatrix_updateEntry:
  assumes "isMatrix n m" and "updateEntry m r c g = Inr m'"
  shows "isMatrix n m'"
  using assms by (auto simp: isMatrix_def updateEntry_Inr nth_list_update)

lemma column_updateEntry_other:
  assumes "updateEntry m r c g = Inr m'" and "j \<noteq> c"
  shows "column m' j = column m j"
proof -
  from assms(1) have r: "r < length m" and m': "m' = m[r := (m ! r)[c := g (m ! r ! c)]]"
    by (simp_all add: updateEntry_Inr)
  show ?thesis
    unfolding column_def m' using r assms(2)
    by (intro nth_equalityI) (auto simp: nth_list_update)
qed

lemma column_updateEntry_same:
  assumes "updateEntry m r c g = Inr m'"
  shows "column m' c = (column m c)[r := g (m ! r ! c)]"
proof -
  from assms(1) have r: "r < length m" and c: "c < length (m ! r)"
    and m': "m' = m[r := (m ! r)[c := g (m ! r ! c)]]"
    by (simp_all add: updateEntry_Inr)
  show ?thesis
    unfolding column_def m' using r c
    by (intro nth_equalityI) (auto simp: nth_list_update)
qed

lemma columnSum_updateEntry:
  assumes "updateEntry m r c g = Inr m'"
  shows "sum_list (column m' j)
       = sum_list (column m j) + (if j = c then g (m ! r ! c) - m ! r ! c else 0)"
proof (cases "j = c")
  case True
  from assms have r: "r < length (column m c)" by (simp add: updateEntry_Inr column_def)
  have "column m c ! r = m ! r ! c" using r by (simp add: column_def)
  then show ?thesis
    using True column_updateEntry_same[OF assms] sum_list_update_real[OF r] by simp
next
  case False
  then show ?thesis using column_updateEntry_other[OF assms] by simp
qed

lemma addCoefficient_columnSum:
  assumes "addCoefficient bw fw flux i m = Inr m'"
  shows "sum_list (column m' j) = sum_list (column m j)"
proof -
  from assms obtain m1 where
      u1: "updateEntry m bw i (\<lambda>x. x + - 1 * flux ! i) = Inr m1"
    and u2: "updateEntry m1 fw i (\<lambda>x. x - - 1 * flux ! i) = Inr m'"
    by (auto simp: addCoefficient_def bindE_eq_Inr getItem_Inr Let_def)
  show ?thesis
    using columnSum_updateEntry[OF u1, of j] columnSum_updateEntry[OF u2, of j] by simp
qed

lemma addCoefficient_isMatrix:
  assumes "addCoefficient bw fw flux i m = Inr m'" and "isMatrix n m"
  shows "isMatrix n m'"
  using assms
  by (auto simp: addCoefficient_def bindE_eq_Inr Let_def dest: isMatrix_updateEntry)

lemma addInnerFace_columnSum:
  assumes "addInnerFace element k face m = Inr m'"
    and "isMatrix n m \<and> (\<forall>j<n. sum_list (column m j) = 0)"
  shows "isMatrix n m' \<and> (\<forall>j<n. sum_list (column m' j) = 0)"
proof -
  from assms(1) obtain flux bw fw where
    "foldE (addCoefficient bw fw flux) [0..<length (Element.vertices element)] m = Inr m'"
    by (auto simp: addInnerFace_def bindE_eq_Inr)
  then show ?thesis
    using assms(2)
    by (rule foldE_invariant)
       (auto simp: addCoefficient_columnSum dest: addCoefficient_isMatrix)
qed

lemma isMatrix_zeros: "isMatrix n (replicate n (replicate n 0))"
  by (simp add: isMatrix_def)

lemma columnSum_zeros: "j < n \<Longrightarrow> sum_list (column (replicate k (replicate n 0)) j) = 0"
  by (simp add: column_def sum_list_replicate)

text \<open>
  C10. Whatever the matrices of global derivatives and the area vectors of the inner
  faces are, a matrix that computeLocalMatrix returns is square, of the size of the
  number of vertices of the element, and each of its columns sums to zero.
\<close>

theorem computeLocalMatrix_columns_sum_to_zero:
  assumes "computeLocalMatrix element permeability b = Inr m"
  shows "isMatrix (length (Element.vertices element)) m
       \<and> (\<forall>j<length (Element.vertices element). sum_list (column m j) = 0)"
proof -
  let ?n = "length (Element.vertices element)"
  from assms have
    "foldE (addInnerFace element permeability) (innerFaces element)
       (replicate ?n (replicate ?n 0)) = Inr m"
    by (simp add: computeLocalMatrix_def Let_def)
  then show ?thesis
    by (rule foldE_invariant)
       (auto simp: isMatrix_zeros columnSum_zeros dest: addInnerFace_columnSum)
qed

theorem computeLocalMatrix_columns_sum_to_zero_witness:
  "computeLocalMatrix
     (lowerTriangle\<lparr>innerFaces :=
        [\<lparr>local = 0, InnerFace.area = Point 1 2 3,
          globalDerivatives = [[1, 2, 3], [4, 5, 6]]\<rparr>]\<rparr>) 1 False
     = Inr [[- 9, - 12, - 15], [9, 12, 15], [0, 0, 0]]
   \<and> sum_list (column [[- 9, - 12, - 15], [9, 12, 15], [0, 0, 0]] 0) = 0
   \<and> sum_list (column [[- 9, - 12, - 15], [9, 12, 15], [0, 0, 0]] 1) = 0
   \<and> sum_list (column [[- 9, - 12, - 15], [9, 12, 15], [0, 0, 0]] 2) = 0"
proof -
  have m: "computeLocalMatrix
     (lowerTriangle\<lparr>innerFaces :=
        [\<lparr>local = 0, InnerFace.area = Point 1 2 3,
          globalDerivatives = [[1, 2, 3], [4, 5, 6]]\<rparr>]\<rparr>) 1 False
     = Inr [[- 9, - 12, - 15], [9, 12, 15], [0, 0, 0]]"
    by (simp add: example_defs numpy_defs localMatrix_defs upt_rec numeral_nat Let_def)
  from computeLocalMatrix_columns_sum_to_zero[OF m] m show ?thesis
    by (simp add: example_defs)
qed

lemma rowSum_updateEntry:
  assumes "updateEntry m r c g = Inr m'"
  shows "sum_list (m' ! q)
       = sum_list (m ! q) + (if q = r then g (m ! r ! c) - m ! r ! c else 0)"
proof -
  from assms have r: "r < length m" and c: "c < length (m ! r)"
    and m': "m' = m[r := (m ! r)[c := g (m ! r ! c)]]"
    by (simp_all add: updateEntry_Inr)
  show ?thesis
    using r sum_list_update_real[OF c] by (simp add: m' nth_list_update)
qed

lemma addCoefficient_rowSum:
  assumes "addCoefficient bw fw flux i m = Inr m'"
  shows "sum_list (m' ! q)
       = sum_list (m ! q) + ((if q = fw then 1 else 0) - (if q = bw then 1 else 0)) * flux ! i"
proof -
  from assms obtain m1 where
      u1: "updateEntry m bw i (\<lambda>x. x + - 1 * flux ! i) = Inr m1"
    and u2: "updateEntry m1 fw i (\<lambda>x. x - - 1 * flux ! i) = Inr m'"
    by (auto simp: addCoefficient_def bindE_eq_Inr getItem_Inr Let_def)
  show ?thesis
    using rowSum_updateEntry[OF u1, of q] rowSum_updateEntry[OF u2, of q] by simp
qed

lemma addCoefficients_rowSum:
  assumes "foldE (addCoefficient bw fw flux) [0..<k] m = Inr m'"
  shows "sum_list (m' ! q)
       = sum_list (m ! q)
         + ((if q = fw then 1 else 0) - (if q = bw then 1 else 0)) * (\<Sum>i<k. flux ! i)"
  using assms
proof (induction k arbitrary: m')
  case 0
  then show ?case by simp
next
  case (Suc k)
  from Suc.prems obtain m1 where
      m1: "foldE (addCoefficient bw fw flux) [0..<k] m = Inr m1"
    and last: "addCoefficient bw fw flux k m1 = Inr m'"
    by (auto simp: foldE_snoc)
  show ?case
    using Suc.IH[OF m1] addCoefficient_rowSum[OF last, of q]
    by (simp add: algebra_simps)
qed

lemma addCoefficient_total:
  assumes "isMatrix n m" and "bw < n" and "fw < n" and "i < n" and "i < length flux"
  shows "\<exists>m'. addCoefficient bw fw flux i m = Inr m' \<and> isMatrix n m'"
proof -
  let ?g = "\<lambda>x. x + - 1 * flux ! i"
  have u1: "updateEntry m bw i ?g = Inr (m[bw := (m ! bw)[i := ?g (m ! bw ! i)]])"
    using assms by (simp add: updateEntry_def isMatrix_def)
  have m1: "isMatrix n (m[bw := (m ! bw)[i := ?g (m ! bw ! i)]])"
    using isMatrix_updateEntry[OF assms(1) u1] .
  then obtain m' where u2: "updateEntry (m[bw := (m ! bw)[i := ?g (m ! bw ! i)]]) fw i
        (\<lambda>x. x - - 1 * flux ! i) = Inr m'"
    using assms by (simp add: updateEntry_def isMatrix_def)
  have "isMatrix n m'" using isMatrix_updateEntry[OF m1 u2] .
  then show ?thesis
    using u1 u2 assms(5) by (simp add: addCoefficient_def getItem_def Let_def)
qed

lemma addCoefficients_total:
  assumes "isMatrix n m" and "bw < n" and "fw < n" and "n \<le> length flux"
  shows "\<exists>m'. foldE (addCoefficient bw fw flux) [0..<n] m = Inr m' \<and> isMatrix n m'"
proof (rule foldE_total)
  show "isMatrix n m" by fact
next
  fix i a assume "i \<in> set [0..<n]" "isMatrix n a"
  then show "\<exists>b. addCoefficient bw fw flux i a = Inr b \<and> isMatrix n b"
    using addCoefficient_total[of n a bw fw i flux] assms by simp
qed

lemma linalg_inv_Inr:
  assumes "linalg_inv j = Inr ji"
  shows "\<exists>p q r s. ji = [[p, q], [r, s]]"
  using assms by (cases j rule: linalg_inv.cases) (auto split: if_splits)

lemma refreshed_flux_Triangle:
  assumes "k < 3"
    and "matmul [[p, q], [r, s]]
           (transpose_np (Triangle_innerFaceShapeFunctionDerivatives ! k)) = Inr g"
    and "globalDerivatives face = g"
  shows "\<exists>flux. diffusiveFlux c face = Inr flux \<and> length flux = 3 \<and> sum_list flux = 0"
proof -
  obtain ax ay az where a: "InnerFace.area face = Point ax ay az"
    by (cases "InnerFace.area face")
  from assms(1) have "k = 0 \<or> k = 1 \<or> k = 2" by auto
  then have g: "g = [[- p - q, p, q], [- r - s, r, s]]"
    using assms(2)
    by (auto simp: Triangle_innerFaceShapeFunctionDerivatives_def matmul_def transpose_np_def
        ncols_def column_def dot_def upt_rec numeral_nat)
  show ?thesis
    by (simp add: diffusiveFlux_def assms(3) g a matmul_transpose_vec_def ncols_def column_def
        dot_def upt_rec numeral_nat algebra_simps)
qed

lemma refreshed_flux_Quadrilateral:
  assumes "k < 4"
    and "matmul [[p, q], [r, s]]
           (transpose_np (Quadrilateral_innerFaceShapeFunctionDerivatives ! k)) = Inr g"
    and "globalDerivatives face = g"
  shows "\<exists>flux. diffusiveFlux c face = Inr flux \<and> length flux = 4 \<and> sum_list flux = 0"
proof -
  obtain ax ay az where a: "InnerFace.area face = Point ax ay az"
    by (cases "InnerFace.area face")
  from assms(1) have "k = 0 \<or> k = 1 \<or> k = 2 \<or> k = 3" by auto
  then obtain g00 g01 g02 g03 g10 g11 g12 g13 where
    g: "g = [[g00, g01, g02, g03], [g10, g11, g12, g13]]"
       "g00 + g01 + g02 + g03 = 0" "g10 + g11 + g12 + g13 = 0"
    using assms(2)
    by (auto simp: Quadrilateral_innerFaceShapeFunctionDerivatives_def matmul_def
        transpose_np_def ncols_def column_def dot_def upt_rec numeral_nat)
  have "c * (g00 * ax + g10 * ay) + (c * (g01 * ax + g11 * ay)
          + (c * (g02 * ax + g12 * ay) + c * (g03 * ax + g13 * ay)))
        = c * ((g00 + g01 + g02 + g03) * ax + (g10 + g11 + g12 + g13) * ay)"
    by (simp add: algebra_simps)
  then show ?thesis
    by (simp add: diffusiveFlux_def assms(3) g a matmul_transpose_vec_def ncols_def column_def
        dot_def upt_rec numeral_nat)
qed

lemma refreshed_flux:
  assumes "refreshed sh face"
  shows "\<exists>flux. diffusiveFlux c face = Inr flux \<and> length flux = vertexCount sh
               \<and> sum_list flux = 0"
proof (cases sh)
  case Triangle
  then show ?thesis
    using assms refreshed_flux_Triangle[of "local face" _ _ _ _ "globalDerivatives face" face c]
    by (auto simp: refreshed_def vertexCount_def Triangle_numberOfInnerFaces_def)
next
  case Quadrilateral
  then show ?thesis
    using assms
      refreshed_flux_Quadrilateral[of "local face" _ _ _ _ "globalDerivatives face" face c]
    by (auto simp: refreshed_def vertexCount_def Quadrilateral_numberOfInnerFaces_def)
qed

lemma derivatives_lookup:
  assumes "k < numberOfInnerFaces sh"
  shows "getItem (innerFaceShapeFunctionDerivatives sh) k
           = Inr (innerFaceShapeFunctionDerivatives sh ! k)"
    and "length (transpose_np (innerFaceShapeFunctionDerivatives sh ! k)) = 2"
proof -
  show "getItem (innerFaceShapeFunctionDerivatives sh) k
           = Inr (innerFaceShapeFunctionDerivatives sh ! k)"
    using assms
    by (cases sh)
       (simp_all add: getItem_def Triangle_numberOfInnerFaces_def
          Quadrilateral_numberOfInnerFaces_def Triangle_innerFaceShapeFunctionDerivatives_def
          Quadrilateral_innerFaceShapeFunctionDerivatives_def)
  show "length (transpose_np (innerFaceShapeFunctionDerivatives sh ! k)) = 2"
  proof (cases sh)
    case Triangle
    with assms have "k = 0 \<or> k = 1 \<or> k = 2"
      by (auto simp: Triangle_numberOfInnerFaces_def)
    then show ?thesis
      using Triangle
      by (auto simp: transpose_np_def ncols_def Triangle_innerFaceShapeFunctionDerivatives_def)
  next
    case Quadrilateral
    with assms have "k = 0 \<or> k = 1 \<or> k = 2 \<or> k = 3"
      by (auto simp: Quadrilateral_numberOfInnerFaces_def)
    then show ?thesis
      using Quadrilateral
      by (auto simp: transpose_np_def ncols_def
          Quadrilateral_innerFaceShapeFunctionDerivatives_def)
  qed
qed

lemma neighbours_lookup:
  assumes "k < numberOfInnerFaces sh"
  shows "\<exists>bw fw. getItem (innerFaceNeighbourVertices sh) k = Inr [bw, fw]
                 \<and> bw < vertexCount sh \<and> fw < vertexCount sh"
proof (cases sh)
  case Triangle
  with assms have "k = 0 \<or> k = 1 \<or> k = 2"
    by (auto simp: Triangle_numberOfInnerFaces_def)
  then show ?thesis
    using Triangle
    by (auto simp: getItem_def vertexCount_def Triangle_innerFaceNeighbourVertices_def)
next
  case Quadrilateral
  with assms have "k = 0 \<or> k = 1 \<or> k = 2 \<or> k = 3"
    by (auto simp: Quadrilateral_numberOfInnerFaces_def)
  then show ?thesis
    using Quadrilateral
    by (auto simp: getItem_def vertexCount_def Quadrilateral_innerFaceNeighbourVertices_def)
qed

lemma refreshInnerFace_refreshed:
  assumes k: "local face < numberOfInnerFaces (shape element)"
    and j: "jacobianOf element
              (innerFaceShapeFunctionDerivatives (shape element) ! local face)
            = Inr [[a, b], [c, d]]"
    and det: "a * d - b * c \<noteq> 0"
  shows "\<exists>face'. refreshInnerFace jacobianOf element face = Inr face'
                \<and> refreshed (shape element) face'"
proof -
  let ?D = "innerFaceShapeFunctionDerivatives (shape element) ! local face"
  let ?inv = "[[d / (a * d - b * c), - b / (a * d - b * c)],
               [- c / (a * d - b * c), a / (a * d - b * c)]]"
  have inv: "linalg_inv [[a, b], [c, d]] = Inr ?inv" using det by simp
  obtain g where g: "matmul ?inv (transpose_np ?D) = Inr g"
    using derivatives_lookup(2)[OF k] by (simp add: matmul_def ncols_def)
  have "refreshInnerFace jacobianOf element face = Inr (face\<lparr>globalDerivatives := g\<rparr>)"
    using derivatives_lookup(1)[OF k] j inv g by (simp add: refreshInnerFace_def)
  moreover have "refreshed (shape element) (face\<lparr>globalDerivatives := g\<rparr>)"
    using k g unfolding refreshed_def by auto
  ultimately show ?thesis by blast
qed

lemma refreshInnerFaces_refreshed:
  assumes "\<forall>face\<in>set fs. local face < numberOfInnerFaces (shape element)
             \<and> (\<exists>a b c d. jacobianOf element
                    (innerFaceShapeFunctionDerivatives (shape element) ! local face)
                  = Inr [[a, b], [c, d]] \<and> a * d - b * c \<noteq> 0)"
  shows "\<exists>fs'. refreshInnerFaces jacobianOf element fs = Inr fs'
              \<and> (\<forall>face'\<in>set fs'. refreshed (shape element) face')"
  using assms
proof (induction fs)
  case Nil
  then show ?case by simp
next
  case (Cons face fs)
  from Cons.prems obtain face' where
    "refreshInnerFace jacobianOf element face = Inr face'" "refreshed (shape element) face'"
    using refreshInnerFace_refreshed[of face element jacobianOf] by auto
  moreover from Cons obtain fs' where
    "refreshInnerFaces jacobianOf element fs = Inr fs'"
    "\<forall>face'\<in>set fs'. refreshed (shape element) face'"
    by auto
  ultimately show ?case by simp
qed

lemma addInnerFace_rowSum:
  assumes r: "refreshed (shape element) face"
    and n: "length (Element.vertices element) = vertexCount (shape element)"
    and inv: "isMatrix (length (Element.vertices element)) m
              \<and> (\<forall>q<length (Element.vertices element). sum_list (m ! q) = 0)"
  shows "\<exists>m'. addInnerFace element c face m = Inr m'
             \<and> isMatrix (length (Element.vertices element)) m'
             \<and> (\<forall>q<length (Element.vertices element). sum_list (m' ! q) = 0)"
proof -
  let ?n = "length (Element.vertices element)"
  from refreshed_flux[OF r, of c] obtain flux where
    flux: "diffusiveFlux c face = Inr flux" "length flux = ?n" "sum_list flux = 0"
    using n by auto
  from r have "local face < numberOfInnerFaces (shape element)" by (simp add: refreshed_def)
  from neighbours_lookup[OF this] obtain bw fw where
    row: "getItem (innerFaceNeighbourVertices (shape element)) (local face) = Inr [bw, fw]"
    and bw: "bw < ?n" and fw: "fw < ?n"
    using n by auto
  from addCoefficients_total[of ?n m bw fw flux] inv bw fw flux(2) obtain m' where
    m': "foldE (addCoefficient bw fw flux) [0..<?n] m = Inr m'" "isMatrix ?n m'"
    by auto
  have "(\<Sum>i<?n. flux ! i) = sum_list flux"
    using flux(2) by (simp add: sum_list_sum_nth atLeast0LessThan)
  then have "\<forall>q<?n. sum_list (m' ! q) = 0"
    using addCoefficients_rowSum[OF m'(1)] inv flux(3) by simp
  moreover have "addInnerFace element c face m = Inr m'"
    using flux(1) row m'(1) by (simp add: addInnerFace_def getItem_def)
  ultimately show ?thesis using m'(2) by blast
qed

text \<open>
  C3. For an element that is a triangle or a quadrilateral, each of whose inner faces has
  a valid local index and a non-singular 2 x 2 Jacobian, the refresh of the global
  derivatives succeeds, computeLocalMatrix returns a matrix with one row per vertex, and
  every row of that matrix sums to zero. The Jacobian is whatever the method
  \<^verbatim>\<open>Element.getJacobian\<close> returns.
\<close>

theorem computeLocalMatrix_rows_sum_to_zero:
  assumes shaped: "case shape element of Triangle \<Rightarrow> Triangle_is element
                     | Quadrilateral \<Rightarrow> Quadrilateral_is element"
    and faces: "\<forall>face\<in>set (innerFaces element).
                  local face < numberOfInnerFaces (shape element)
                  \<and> (\<exists>a b c d.
                        jacobianOf element
                          (innerFaceShapeFunctionDerivatives (shape element) ! local face)
                        = Inr [[a, b], [c, d]] \<and> a * d - b * c \<noteq> 0)"
  shows "\<exists>element' m.
           refreshElement jacobianOf element = Inr element'
           \<and> computeLocalMatrix element' permeability flag = Inr m
           \<and> length m = length (Element.vertices element)
           \<and> (\<forall>row\<in>set m. sum_list row = 0)"
proof -
  let ?n = "length (Element.vertices element)"
  from refreshInnerFaces_refreshed[of "innerFaces element" element jacobianOf, OF faces]
  obtain fs' where
    fs': "refreshInnerFaces jacobianOf element (innerFaces element) = Inr fs'"
         "\<forall>face'\<in>set fs'. refreshed (shape element) face'"
    by blast
  let ?e = "element\<lparr>innerFaces := fs'\<rparr>"
  have e: "refreshElement jacobianOf element = Inr ?e"
    using fs'(1) by (simp add: refreshElement_def)
  have n: "length (Element.vertices ?e) = vertexCount (shape ?e)"
    using shaped
    by (cases "shape element")
       (simp_all add: vertexCount_def Triangle_is_def Quadrilateral_is_def split: if_splits)
  have "\<exists>m. foldE (addInnerFace ?e permeability) fs' (replicate ?n (replicate ?n 0)) = Inr m
            \<and> (isMatrix ?n m \<and> (\<forall>q<?n. sum_list (m ! q) = 0))"
  proof (rule foldE_total[where P = "\<lambda>m. isMatrix ?n m \<and> (\<forall>q<?n. sum_list (m ! q) = 0)"])
    show "isMatrix ?n (replicate ?n (replicate ?n 0))
          \<and> (\<forall>q<?n. sum_list (replicate ?n (replicate ?n (0::real)) ! q) = 0)"
      by (simp add: isMatrix_zeros sum_list_zeros)
  next
    fix face m
    assume "face \<in> set fs'"
      and "isMatrix ?n m \<and> (\<forall>q<?n. sum_list (m ! q) = 0)"
    then show "\<exists>m'. addInnerFace ?e permeability face m = Inr m'
                   \<and> (isMatrix ?n m' \<and> (\<forall>q<?n. sum_list (m' ! q) = 0))"
      using addInnerFace_rowSum[of ?e face m permeability] fs'(2) n by simp
  qed
  then obtain m where
    m: "foldE (addInnerFace ?e permeability) fs' (replicate ?n (replicate ?n 0)) = Inr m"
       "isMatrix ?n m" "\<forall>q<?n. sum_list (m ! q) = 0"
    by blast
  have "computeLocalMatrix ?e permeability flag = Inr m"
    using m(1) by (simp add: computeLocalMatrix_def Let_def)
  moreover have "\<forall>row\<in>set m. sum_list row = 0"
    using m(2,3) by (auto simp: isMatrix_def in_set_conv_nth)
  ultimately show ?thesis using e m(2) by (auto simp: isMatrix_def)
qed

theorem computeLocalMatrix_rows_sum_to_zero_witness:
  "refreshElement exampleJacobian lowerTriangle = Inr lowerTriangle
   \<and> computeLocalMatrix lowerTriangle 1 True
     = Inr [[0, 1/2, - 1/2], [- 1/2, 0, 1/2], [1/2, - 1/2, 0]]
   \<and> sum_list [0, 1/2, - 1/2 :: real] = 0
   \<and> sum_list [- 1/2, 0, 1/2 :: real] = 0
   \<and> sum_list [1/2, - 1/2, 0 :: real] = 0
   \<and> refreshElement exampleJacobian unitSquareElement = Inr unitSquareElement
   \<and> computeLocalMatrix unitSquareElement 1 True
     = Inr [[0, 1/2, 0, - 1/2], [- 1/2, 0, 1/2, 0], [0, - 1/2, 0, 1/2], [1/2, 0, - 1/2, 0]]
   \<and> sum_list [0, 1/2, 0, - 1/2 :: real] = 0
   \<and> sum_list [- 1/2, 0, 1/2, 0 :: real] = 0
   \<and> sum_list [0, - 1/2, 0, 1/2 :: real] = 0
   \<and> sum_list [1/2, 0, - 1/2, 0 :: real] = 0"
proof -
  have r: "refreshElement exampleJacobian lowerTriangle = Inr lowerTriangle"
    by (simp add: example_defs numpy_defs refreshElement_def refreshInnerFace_def
        exampleJacobian_def vertexCoordinates_def Triangle_innerFaceShapeFunctionDerivatives_def
        upt_rec numeral_nat)
  have c: "computeLocalMatrix lowerTriangle 1 True
             = Inr [[0, 1/2, - 1/2], [- 1/2, 0, 1/2], [1/2, - 1/2, 0]]"
    by (simp add: example_defs numpy_defs localMatrix_defs upt_rec numeral_nat Let_def)
  have t: "\<exists>element' m.
           refreshElement exampleJacobian lowerTriangle = Inr element'
           \<and> computeLocalMatrix element' 1 True = Inr m
           \<and> length m = length (Element.vertices lowerTriangle)
           \<and> (\<forall>row\<in>set m. sum_list row = 0)"
    by (rule computeLocalMatrix_rows_sum_to_zero)
       (simp_all add: example_defs numpy_defs Triangle_is_def exampleJacobian_def
          vertexCoordinates_def Triangle_numberOfInnerFaces_def
          Triangle_innerFaceShapeFunctionDerivatives_def upt_rec numeral_nat)
  have r4: "refreshElement exampleJacobian unitSquareElement = Inr unitSquareElement"
    by (simp add: unitSquareElement_def unitSquare_def numpy_defs refreshElement_def
        refreshInnerFace_def exampleJacobian_def vertexCoordinates_def
        Quadrilateral_innerFaceShapeFunctionDerivatives_def upt_rec numeral_nat)
  have c4: "computeLocalMatrix unitSquareElement 1 True
     = Inr [[0, 1/2, 0, - 1/2], [- 1/2, 0, 1/2, 0], [0, - 1/2, 0, 1/2], [1/2, 0, - 1/2, 0]]"
    by (simp add: unitSquareElement_def unitSquare_def numpy_defs localMatrix_defs
        Quadrilateral_innerFaceNeighbourVertices_def upt_rec numeral_nat Let_def)
  have q: "\<exists>element' m.
           refreshElement exampleJacobian unitSquareElement = Inr element'
           \<and> computeLocalMatrix element' 1 True = Inr m
           \<and> length m = length (Element.vertices unitSquareElement)
           \<and> (\<forall>row\<in>set m. sum_list row = 0)"
    by (rule computeLocalMatrix_rows_sum_to_zero)
       (simp_all add: unitSquareElement_def unitSquare_def numpy_defs Quadrilateral_is_def
          exampleJacobian_def vertexCoordinates_def Quadrilateral_numberOfInnerFaces_def
          Quadrilateral_innerFaceShapeFunctionDerivatives_def upt_rec numeral_nat)
  from t r c q r4 c4 show ?thesis by auto
qed

section \<open>The refresh of the global derivatives\<close>

lemma refreshInnerFace_eq_construction:
  assumes "jacobianOf element
             (innerFaceShapeFunctionDerivatives (shape element) ! local innerFace)
           = transposedJacobianOf element
               (innerFaceShapeFunctionDerivatives (shape element) ! local innerFace)"
  shows "refreshInnerFace jacobianOf element innerFace
       = InnerFace_calculateGlobalDerivatives transposedJacobianOf element innerFace"
  using assms
  by (cases "local innerFace < length (innerFaceShapeFunctionDerivatives (shape element))")
     (simp_all add: refreshInnerFace_def InnerFace_calculateGlobalDerivatives_def getItem_def)

section \<open>The convergence check\<close>

lemma pymax_Max: "xs \<noteq> [] \<Longrightarrow> pymax xs = Inr (Max (set xs))"
  by (cases xs) (simp_all add: pymax_def flip: Max.set_eq_fold)

lemma set_map2_nth:
  "set (map2 f xs ys) = (\<lambda>i. f (xs ! i) (ys ! i)) ` {..<min (length xs) (length ys)}"
proof -
  have "set (map2 f xs ys) = (\<lambda>i. map2 f xs ys ! i) ` {..<length (map2 f xs ys)}"
    by (simp only: set_conv_nth) blast
  also have "\<dots> = (\<lambda>i. f (xs ! i) (ys ! i)) ` {..<min (length xs) (length ys)}"
    by (rule image_cong) simp_all
  finally show ?thesis .
qed

text \<open>
  C5. When both temperature vectors are non-empty, checkConvergence returns; it sets
  difference to the maximum over the vertices of the absolute difference between the new
  and the old temperature, sets oldTemperature to numericalTemperature, changes nothing
  else, and returns true exactly when the current time exceeds finalTime, or the
  iteration is positive and the difference is below the tolerance. At iteration 0 the
  result is the time-limit test alone.
\<close>

theorem checkConvergence_spec:
  fixes self :: HeatTransfer2D
  defines "d \<equiv> Max ((\<lambda>i. \<bar>numericalTemperature self ! i - oldTemperature self ! i\<bar>)
                       ` {..<min (length (numericalTemperature self))
                                 (length (oldTemperature self))})"
  assumes "numericalTemperature self \<noteq> []" and "oldTemperature self \<noteq> []"
  shows "checkConvergence self =
           Inr (finalTime (problemData self) < getCurrentTime (timer self)
                  \<or> (0 < iteration self \<and> d < tolerance (problemData self)),
                self\<lparr>difference := d, oldTemperature := numericalTemperature self\<rparr>)
         \<and> map_sum id fst (checkConvergence (self\<lparr>iteration := 0\<rparr>))
             = Inr (finalTime (problemData self) < getCurrentTime (timer self))"
proof -
  let ?xs = "map2 (\<lambda>temp oldTemp. \<bar>temp - oldTemp\<bar>)
               (numericalTemperature self) (oldTemperature self)"
  have ne: "?xs \<noteq> []"
    using assms(2,3)
    by (cases "numericalTemperature self"; cases "oldTemperature self") simp_all
  have "pymax ?xs = Inr d"
    unfolding d_def using pymax_Max[OF ne] by (simp only: set_map2_nth)
  then show ?thesis
    by (simp add: checkConvergence_def Let_def)
qed

theorem checkConvergence_spec_witness:
  "checkConvergence (exampleSolver\<lparr>oldTemperature := [1, 2, 2, 2]\<rparr>)
     = Inr (True, exampleSolver\<lparr>oldTemperature := [1, 2, 2, 2], difference := 0\<rparr>)
   \<and> map_sum id fst
        (checkConvergence (exampleSolver\<lparr>oldTemperature := [1, 2, 2, 2], iteration := 0\<rparr>))
     = Inr False"
  using checkConvergence_spec [of "exampleSolver\<lparr>oldTemperature := [1, 2, 2, 2]\<rparr>"]
  by (simp add: example_defs getCurrentTime_def lessThan_Suc)

section \<open>Passes that overwrite entries of the independent vector\<close>

lemma overwritesD:
  assumes "overwrites F H" and "F a = Inr a'"
  shows "length a' = length a"
    and "i \<notin> H \<Longrightarrow> a' ! i = a ! i"
    and "length b = length a \<Longrightarrow> \<exists>b'. F b = Inr b' \<and> (\<forall>i\<in>H. b' ! i = a' ! i)"
  using assms unfolding overwrites_def by blast+

lemma overwrites_subset:
  assumes "overwrites F H" and "F a = Inr a'" and "i \<notin> H"
  shows "a' ! i = a ! i"
  using overwritesD(2)[OF assms] .

lemma overwrites_Inr: "overwrites Inr {}"
  by (simp add: overwrites_def)

lemma overwrites_setItem: "overwrites (\<lambda>a. setItem a h v) {h}"
  by (auto simp: overwrites_def setItem_Inr)

lemma overwrites_bindE:
  assumes F: "overwrites F H" and G: "overwrites G K"
  shows "overwrites (\<lambda>a. bindE (F a) G) (H \<union> K)"
  unfolding overwrites_def
proof (intro allI impI)
  fix a a' assume "bindE (F a) G = Inr a'"
  then obtain a1 where a1: "F a = Inr a1" and a': "G a1 = Inr a'"
    by (auto simp: bindE_eq_Inr)
  note f = overwritesD[OF F a1] and g = overwritesD[OF G a']
  have len: "length a' = length a" using f(1) g(1) by simp
  have frame: "\<forall>i. i \<notin> H \<union> K \<longrightarrow> a' ! i = a ! i" using f(2) g(2) by simp
  have dep: "\<forall>b. length b = length a \<longrightarrow>
               (\<exists>b'. bindE (F b) G = Inr b' \<and> (\<forall>i\<in>H \<union> K. b' ! i = a' ! i))"
  proof (intro allI impI)
    fix b :: vec assume lb: "length b = length a"
    from f(3)[OF lb] obtain b1 where b1: "F b = Inr b1" "\<forall>i\<in>H. b1 ! i = a1 ! i" by blast
    have "length b1 = length a1" using overwritesD(1)[OF F b1(1)] f(1) lb by simp
    from g(3)[OF this] obtain b' where b': "G b1 = Inr b'" "\<forall>i\<in>K. b' ! i = a' ! i" by blast
    have "\<forall>i\<in>H \<union> K. b' ! i = a' ! i"
    proof
      fix i assume i: "i \<in> H \<union> K"
      show "b' ! i = a' ! i"
      proof (cases "i \<in> K")
        case True
        then show ?thesis using b'(2) by simp
      next
        case False
        then have "i \<in> H" using i by simp
        have "b' ! i = b1 ! i" using overwritesD(2)[OF G b'(1) False] .
        also have "\<dots> = a1 ! i" using b1(2) \<open>i \<in> H\<close> by simp
        also have "\<dots> = a' ! i" using g(2)[OF False] by simp
        finally show ?thesis .
      qed
    qed
    then show "\<exists>b'. bindE (F b) G = Inr b' \<and> (\<forall>i\<in>H \<union> K. b' ! i = a' ! i)"
      using b1(1) b'(1) by simp
  qed
  show "length a' = length a \<and> (\<forall>i. i \<notin> H \<union> K \<longrightarrow> a' ! i = a ! i)
        \<and> (\<forall>b. length b = length a \<longrightarrow>
               (\<exists>b'. bindE (F b) G = Inr b' \<and> (\<forall>i\<in>H \<union> K. b' ! i = a' ! i)))"
    using len frame dep by blast
qed

lemma overwrites_foldE:
  assumes "\<And>x. x \<in> set xs \<Longrightarrow> overwrites (f x) (H x)"
  shows "overwrites (foldE f xs) (\<Union>x\<in>set xs. H x)"
  using assms
proof (induction xs)
  case Nil
  have "foldE f [] = Inr" by (rule ext) simp
  then show ?case using overwrites_Inr by simp
next
  case (Cons x xs)
  have eq: "foldE f (x # xs) = (\<lambda>a. bindE (f x a) (foldE f xs))"
    by (rule ext) (simp add: bindE_def)
  have "overwrites (\<lambda>a. bindE (f x a) (foldE f xs)) (H x \<union> (\<Union>y\<in>set xs. H y))"
    by (rule overwrites_bindE) (simp_all add: Cons)
  then show ?case by (simp add: eq)
qed

lemma overwrites_guard:
  assumes "\<And>v. m = Inr v \<Longrightarrow> overwrites (F v) H"
  shows "overwrites (\<lambda>a. bindE m (\<lambda>v. F v a)) H"
proof (cases m)
  case (Inl e)
  then show ?thesis by (simp add: overwrites_def)
next
  case (Inr v)
  then show ?thesis using assms by simp
qed

lemma overwrites_idempotent:
  assumes F: "overwrites F H" and a: "F a = Inr a'"
  shows "F a' = Inr a'"
proof -
  have "length a' = length a" using overwritesD(1)[OF F a] .
  from overwritesD(3)[OF F a this] obtain b' where
    b': "F a' = Inr b'" "\<forall>i\<in>H. b' ! i = a' ! i" by blast
  have "b' = a'"
  proof (rule nth_equalityI)
    show "length b' = length a'" using overwritesD(1)[OF F b'(1)] .
  next
    fix i assume "i < length b'"
    show "b' ! i = a' ! i"
      using b'(2) overwritesD(2)[OF F b'(1), of i] by (cases "i \<in> H") simp_all
  qed
  then show ?thesis using b'(1) by simp
qed

lemma overwrites_dirichletVertex:
  "overwrites (dirichletVertex bc v) {Vertex.handle v}"
proof -
  have "dirichletVertex bc v
      = (\<lambda>a. setItem a (Vertex.handle v) (getValue bc (Vertex.handle v)))"
    by (rule ext) (simp add: dirichletVertex_def)
  then show ?thesis by (simp only: overwrites_setItem)
qed

lemma overwrites_dirichletBoundaryAdder:
  "overwrites (dirichletBoundaryAdder bcs)
     (\<Union>bc\<in>set bcs. \<Union>v\<in>set (Boundary.vertices (boundary bc)). {Vertex.handle v})"
proof -
  have "dirichletBoundaryAdder bcs =
      foldE (\<lambda>bCondition. foldE (dirichletVertex bCondition)
                            (Boundary.vertices (boundary bCondition))) bcs"
    by (rule ext) (simp add: dirichletBoundaryAdder_def)
  then show ?thesis
    by (simp only:) (intro overwrites_foldE overwrites_dirichletVertex)
qed

lemma overwrites_dirichletVertices:
  "overwrites (foldE (dirichletVertex bc) vs) (set (map Vertex.handle vs))"
proof -
  have "overwrites (foldE (dirichletVertex bc) vs) (\<Union>v\<in>set vs. {Vertex.handle v})"
    by (intro overwrites_foldE overwrites_dirichletVertex)
  moreover have "(\<Union>v\<in>set vs. {Vertex.handle v}) = set (map Vertex.handle vs)" by auto
  ultimately show ?thesis by simp
qed

lemma overwrites_dirichletHandles:
  "overwrites (dirichletBoundaryAdder bcs) (set (dirichletHandles bcs))"
proof -
  have "(\<Union>bc\<in>set bcs. \<Union>v\<in>set (Boundary.vertices (boundary bc)). {Vertex.handle v})
      = set (dirichletHandles bcs)"
    by (auto simp: dirichletHandles_def)
  then show ?thesis using overwrites_dirichletBoundaryAdder[of bcs] by simp
qed

lemma dirichletBoundaryAdder_last_write:
  assumes pass: "dirichletBoundaryAdder bcs ind = Inr ind'"
    and bcs: "bcs = bcs1 @ bc # bcs2"
    and vs: "Boundary.vertices (boundary bc) = vs1 @ v # vs2"
    and last: "Vertex.handle v \<notin> set (map Vertex.handle vs2) \<union> set (dirichletHandles bcs2)"
  shows "ind' ! Vertex.handle v = getValue bc (Vertex.handle v)"
proof -
  let ?h = "Vertex.handle v"
  from pass bcs vs obtain a1 a2 where
      a2: "foldE (dirichletVertex bc) (vs1 @ v # vs2) a1 = Inr a2"
    and rest_bcs: "dirichletBoundaryAdder bcs2 a2 = Inr ind'"
    by (auto simp: dirichletBoundaryAdder_def foldE_mid)
  from a2 obtain c1 c2 where
      c2: "dirichletVertex bc v c1 = Inr c2"
    and rest_vs: "foldE (dirichletVertex bc) vs2 c2 = Inr a2"
    by (auto simp: foldE_mid)
  from c2 have "c2 ! ?h = getValue bc ?h"
    by (auto simp: dirichletVertex_def setItem_Inr)
  moreover have "a2 ! ?h = c2 ! ?h"
    using overwrites_subset[OF overwrites_dirichletVertices rest_vs] last by blast
  moreover have "ind' ! ?h = a2 ! ?h"
    using overwrites_subset[OF overwrites_dirichletHandles rest_bcs] last by blast
  ultimately show ?thesis by simp
qed

text \<open>
  C7. A second application of the Dirichlet pass to the vector that a first application
  produced returns that vector unchanged: every entry is as the first application set
  it. The pass assigns: the entry of a boundary vertex is the value that its boundary
  condition prescribes for its handle, unless a later vertex of the pass has the same
  handle.
\<close>

theorem dirichletBoundaryAdder_idempotent:
  assumes pass: "dirichletBoundaryAdder bcs ind = Inr ind'"
  shows "dirichletBoundaryAdder bcs ind' = Inr ind'
       \<and> (\<forall>bcs1 bc bcs2 vs1 v vs2.
             bcs = bcs1 @ bc # bcs2
             \<and> Boundary.vertices (boundary bc) = vs1 @ v # vs2
             \<and> Vertex.handle v \<notin> set (map Vertex.handle vs2) \<union> set (dirichletHandles bcs2)
             \<longrightarrow> ind' ! Vertex.handle v = getValue bc (Vertex.handle v))"
  using overwrites_idempotent[OF overwrites_dirichletBoundaryAdder pass]
    dirichletBoundaryAdder_last_write[OF pass]
  by blast

theorem dirichletBoundaryAdder_idempotent_witness:
  "dirichletBoundaryAdder exampleDirichlet [5, 6, 7, 8] = Inr [1, 2, 2, 2]
   \<and> dirichletBoundaryAdder exampleDirichlet [1, 2, 2, 2] = Inr [1, 2, 2, 2]
   \<and> [1, 2, 2, 2] ! Vertex.handle (exampleVertices ! 1)
       = getValue (exampleDirichlet ! 1) (Vertex.handle (exampleVertices ! 1))"
proof -
  have first: "dirichletBoundaryAdder exampleDirichlet [5, 6, 7, 8] = Inr [1, 2, 2, 2]"
    by (simp add: example_defs assembly_defs setItem_def)
  have split: "exampleDirichlet = [exampleDirichlet ! 0] @ exampleDirichlet ! 1 # []
      \<and> Boundary.vertices (boundary (exampleDirichlet ! 1))
          = [] @ exampleVertices ! 1 # [exampleVertices ! 2, exampleVertices ! 3]
      \<and> Vertex.handle (exampleVertices ! 1)
          \<notin> set (map Vertex.handle [exampleVertices ! 2, exampleVertices ! 3])
            \<union> set (dirichletHandles [])"
    by (simp add: example_defs dirichletHandles_def)
  from dirichletBoundaryAdder_idempotent[OF first] split first show ?thesis by blast
qed

section \<open>Internal heat generation\<close>

lemma overwrites_heatGenerationVertex:
  "overwrites (heatGenerationVertex q v) {Vertex.handle v}"
proof -
  have "heatGenerationVertex q v = (\<lambda>a. setItem a (Vertex.handle v) (volume v * q))"
    by (rule ext) (simp add: heatGenerationVertex_def)
  then show ?thesis by (simp only: overwrites_setItem)
qed

lemma overwrites_heatGenerationVertices:
  "overwrites (foldE (heatGenerationVertex q) vs) (set (map Vertex.handle vs))"
proof -
  have "overwrites (foldE (heatGenerationVertex q) vs) (\<Union>v\<in>set vs. {Vertex.handle v})"
    by (intro overwrites_foldE overwrites_heatGenerationVertex)
  moreover have "(\<Union>v\<in>set vs. {Vertex.handle v}) = set (map Vertex.handle vs)" by auto
  ultimately show ?thesis by simp
qed

lemma overwrites_heatGenerationElement:
  "overwrites (heatGenerationElement es q i) (set (elementHandles es i))"
proof -
  have eq: "heatGenerationElement es q i
      = (\<lambda>a. bindE (getItem es i)
                (\<lambda>element. foldE (heatGenerationVertex q) (Element.vertices element) a))"
    by (rule ext) (simp add: heatGenerationElement_def)
  show ?thesis
    unfolding eq
  proof (rule overwrites_guard)
    fix element assume "getItem es i = Inr element"
    then have "element = es ! i" by (simp add: getItem_Inr)
    then show "overwrites (foldE (heatGenerationVertex q) (Element.vertices element))
                 (set (elementHandles es i))"
      using overwrites_heatGenerationVertices[of q "Element.vertices (es ! i)"]
      by (simp add: elementHandles_def)
  qed
qed

lemma overwrites_heatGenerationElements:
  "overwrites (foldE (heatGenerationElement es q) js) (set (concat (map (elementHandles es) js)))"
proof -
  have "overwrites (foldE (heatGenerationElement es q) js) (\<Union>i\<in>set js. set (elementHandles es i))"
    by (intro overwrites_foldE overwrites_heatGenerationElement)
  then show ?thesis by simp
qed

lemma overwrites_heatGenerationRegion:
  "overwrites (heatGenerationRegion pd es r) (set (regionHandles es r))"
proof -
  have eq: "heatGenerationRegion pd es r
      = (\<lambda>a. bindE (getProperty pd (Region.handle r) ''InternalHeatGeneration'')
                (\<lambda>q. foldE (heatGenerationElement es q) (Region.elements r) a))"
    by (rule ext) (simp add: heatGenerationRegion_def)
  show ?thesis
    unfolding eq regionHandles_def
    by (rule overwrites_guard) (rule overwrites_heatGenerationElements)
qed

lemma overwrites_internalHeatGeneration:
  "overwrites (internalHeatGeneration pd es rs) (set (concat (map (regionHandles es) rs)))"
proof -
  have eq: "internalHeatGeneration pd es rs = foldE (heatGenerationRegion pd es) rs"
    by (rule ext) (simp add: internalHeatGeneration_def)
  have "overwrites (foldE (heatGenerationRegion pd es) rs) (\<Union>r\<in>set rs. set (regionHandles es r))"
    by (intro overwrites_foldE overwrites_heatGenerationRegion)
  then show ?thesis by (simp add: eq)
qed

text \<open>
  C6. In the pass for the internal heat generation the entry of a vertex is assigned the
  volume of the vertex times the heat generation of the region being visited, whatever
  the entry held before; so the entry that remains for a handle is the one written at
  the last visit to that handle, in the order of the regions, of the elements of a
  region and of the vertices of an element.
\<close>

theorem internalHeatGeneration_last_write:
  assumes pass: "internalHeatGeneration pd es rs ind = Inr ind'"
    and rs: "rs = rs1 @ r # rs2"
    and js: "Region.elements r = js1 @ j # js2"
    and vs: "Element.vertices (es ! j) = vs1 @ v # vs2"
    and last: "Vertex.handle v \<notin> set (map Vertex.handle vs2)
                 \<union> set (concat (map (elementHandles es) js2))
                 \<union> set (concat (map (regionHandles es) rs2))"
  shows "\<exists>q. getProperty pd (Region.handle r) ''InternalHeatGeneration'' = Inr q
             \<and> ind' ! Vertex.handle v = volume v * q"
proof -
  let ?h = "Vertex.handle v"
  from pass rs obtain a1 a2 where
      a2: "heatGenerationRegion pd es r a1 = Inr a2"
    and rest_rs: "foldE (heatGenerationRegion pd es) rs2 a2 = Inr ind'"
    by (auto simp: internalHeatGeneration_def foldE_mid)
  from a2 js obtain q b1 b2 where
      q: "getProperty pd (Region.handle r) ''InternalHeatGeneration'' = Inr q"
    and b2: "heatGenerationElement es q j b1 = Inr b2"
    and rest_js: "foldE (heatGenerationElement es q) js2 b2 = Inr a2"
    by (auto simp: heatGenerationRegion_def foldE_mid bindE_eq_Inr)
  from b2 vs obtain c1 c2 where
      c2: "heatGenerationVertex q v c1 = Inr c2"
    and rest_vs: "foldE (heatGenerationVertex q) vs2 c2 = Inr b2"
    by (auto simp: heatGenerationElement_def getItem_Inr foldE_mid bindE_eq_Inr)
  from c2 have "c2 ! ?h = volume v * q"
    by (auto simp: heatGenerationVertex_def setItem_Inr)
  moreover have "b2 ! ?h = c2 ! ?h"
    using overwrites_subset[OF overwrites_heatGenerationVertices rest_vs] last by blast
  moreover have "a2 ! ?h = b2 ! ?h"
    using overwrites_subset[OF overwrites_heatGenerationElements rest_js] last by blast
  moreover have "ind' ! ?h = a2 ! ?h"
    using overwrites_subset[OF overwrites_internalHeatGeneration, of pd es rs2 a2 ind' ?h]
      rest_rs last by (simp add: internalHeatGeneration_def)
  ultimately show ?thesis using q by simp
qed

theorem internalHeatGeneration_last_write_witness:
  "internalHeatGeneration exampleProblemData (Grid.elements exampleGrid) exampleRegions
     [0, 0, 0, 0] = Inr [4, 1, 4, 2]
   \<and> (\<exists>q. getProperty exampleProblemData 1 ''InternalHeatGeneration'' = Inr q
          \<and> [4, 1, 4, 2] ! 0 = volume (exampleVertices ! 0) * q)"
proof -
  have pass: "internalHeatGeneration exampleProblemData (Grid.elements exampleGrid)
      exampleRegions [0, 0, 0, 0] = Inr [4, 1, 4, 2]"
    by (simp add: example_defs assembly_defs numpy_defs)
  have "\<exists>q. getProperty exampleProblemData
               (Region.handle \<lparr>Region.handle = 1, Region.elements = [1]\<rparr>)
               ''InternalHeatGeneration'' = Inr q
             \<and> [4, 1, 4, 2] ! Vertex.handle (exampleVertices ! 0)
                 = volume (exampleVertices ! 0) * q"
    by (rule internalHeatGeneration_last_write[OF pass,
          of "[\<lparr>Region.handle = 0, Region.elements = [0]\<rparr>]" _ "[]" "[]" 1 "[]" "[]" _
             "[exampleVertices ! 2, exampleVertices ! 3]"])
       (simp_all add: example_defs elementHandles_def regionHandles_def)
  then show ?thesis using pass by (simp add: exampleVertices_def)
qed

section \<open>The assembly: the matrix after the first iteration, the rebuilt vector\<close>

lemma transientVertex_later:
  assumes "transientVertex False old acc element lm lv im = Inr im'"
  shows "snd im' = snd im \<and> length (fst im') = length (fst im)"
  using assms
  by (cases lv; cases im)
     (auto simp: transientVertex_def Let_def bindE_eq_Inr setItem_Inr)

lemma transientElement_later:
  assumes "transientElement False old es k acc i im = Inr im'"
  shows "snd im' = snd im \<and> length (fst im') = length (fst im)"
proof -
  from assms obtain element lm where
    "foldE (transientVertex False old acc element lm)
       (enumerate 0 (Element.vertices element)) im = Inr im'"
    by (auto simp: transientElement_def bindE_eq_Inr)
  then show ?thesis
    by (rule foldE_invariant) (auto dest: transientVertex_later)
qed

lemma transientRegion_later:
  assumes "transientRegion pd dt False old es r im = Inr im'"
  shows "snd im' = snd im \<and> length (fst im') = length (fst im)"
proof -
  from assms obtain k acc where
    "foldE (transientElement False old es k acc) (Region.elements r) im = Inr im'"
    by (auto simp: transientRegion_def bindE_eq_Inr)
  then show ?thesis
    by (rule foldE_invariant) (auto dest: transientElement_later)
qed

lemma transientTermAndDiffusiveFlux_later:
  assumes "transientTermAndDiffusiveFlux pd dt False old es rs im = Inr im'"
  shows "snd im' = snd im \<and> length (fst im') = length (fst im)"
  using assms unfolding transientTermAndDiffusiveFlux_def
  by (rule foldE_invariant) (auto dest: transientRegion_later)

lemma neumannBoundaryAdder_length:
  assumes "neumannBoundaryAdder bcs ind = Inr ind'"
  shows "length ind' = length ind"
proof -
  have face: "length b = length a" if "neumannOuterFace bc f a = Inr b" for bc f a b
    using that by (auto simp: neumannOuterFace_def bindE_eq_Inr setItem_Inr)
  have facet: "length b = length a"
    if "foldE (neumannOuterFace bc) fs a = Inr b" for bc fs a b
    using that by (rule foldE_invariant) (auto dest: face)
  have cond: "length b = length a"
    if "foldE (\<lambda>facet. foldE (neumannOuterFace bc) (outerFaces facet)) fs a = Inr b"
    for bc fs a b
    using that by (rule foldE_invariant) (auto dest: facet)
  show ?thesis
    using assms unfolding neumannBoundaryAdder_def
    by (rule foldE_invariant) (auto dest: cond)
qed

lemma transientVertex_frame:
  assumes "transientVertex first old acc element lm lv im = Inr im'"
    and "h \<noteq> Vertex.handle (snd lv)"
  shows "fst im' ! h = fst im ! h"
  using assms
  by (cases lv; cases im)
     (auto simp: transientVertex_def Let_def bindE_eq_Inr setItem_Inr split: if_splits)

lemma transientElement_frame:
  assumes "transientElement first old es k acc i im = Inr im'"
    and "h \<notin> set (elementHandles es i)"
  shows "fst im' ! h = fst im ! h"
proof -
  let ?vs = "Element.vertices (es ! i)"
  from assms(1) obtain lm where
    f: "foldE (transientVertex first old acc (es ! i) lm) (enumerate 0 ?vs) im = Inr im'"
    by (auto simp: transientElement_def bindE_eq_Inr getItem_Inr)
  show ?thesis
  proof (rule foldE_preserves[OF f, where g = "\<lambda>a. fst a ! h"])
    fix lv a b
    assume lv: "lv \<in> set (enumerate 0 ?vs)"
      and step: "transientVertex first old acc (es ! i) lm lv a = Inr b"
    from lv have "fst lv < length ?vs" "?vs ! fst lv = snd lv"
      by (simp_all add: in_set_enumerate_eq)
    then have "snd lv \<in> set ?vs" by (metis nth_mem)
    then have "h \<noteq> Vertex.handle (snd lv)"
      using assms(2) by (auto simp: elementHandles_def)
    then show "fst b ! h = fst a ! h" using transientVertex_frame[OF step] by simp
  qed
qed

lemma transientRegion_frame:
  assumes "transientRegion pd dt first old es r im = Inr im'"
    and "h \<notin> set (regionHandles es r)"
  shows "fst im' ! h = fst im ! h"
proof -
  from assms(1) obtain k acc where
    f: "foldE (transientElement first old es k acc) (Region.elements r) im = Inr im'"
    by (auto simp: transientRegion_def bindE_eq_Inr)
  show ?thesis
  proof (rule foldE_preserves[OF f, where g = "\<lambda>a. fst a ! h"])
    fix i a b
    assume "i \<in> set (Region.elements r)"
      and step: "transientElement first old es k acc i a = Inr b"
    then have "h \<notin> set (elementHandles es i)"
      using assms(2) by (auto simp: regionHandles_def)
    then show "fst b ! h = fst a ! h" using transientElement_frame[OF step] by simp
  qed
qed

lemma transientTermAndDiffusiveFlux_frame:
  assumes "transientTermAndDiffusiveFlux pd dt first old es rs im = Inr im'"
    and "h \<notin> set (concat (map (regionHandles es) rs))"
  shows "fst im' ! h = fst im ! h"
proof (rule foldE_preserves[OF assms(1)[unfolded transientTermAndDiffusiveFlux_def],
      where g = "\<lambda>a. fst a ! h"])
  fix r a b
  assume "r \<in> set rs" and step: "transientRegion pd dt first old es r a = Inr b"
  then have "h \<notin> set (regionHandles es r)" using assms(2) by auto
  then show "fst b ! h = fst a ! h" using transientRegion_frame[OF step] by simp
qed

lemma neumannOuterFaces_frame:
  assumes "foldE (neumannOuterFace bc) fs a = Inr b"
    and "h \<notin> set (map (\<lambda>f. Vertex.handle (vertex f)) fs)"
  shows "b ! h = a ! h"
proof (rule foldE_preserves[OF assms(1), where g = "\<lambda>c. c ! h"])
  fix f c d
  assume "f \<in> set fs" and step: "neumannOuterFace bc f c = Inr d"
  then have "h \<noteq> Vertex.handle (vertex f)" using assms(2) by auto
  then show "d ! h = c ! h"
    using step by (auto simp: neumannOuterFace_def bindE_eq_Inr setItem_Inr)
qed

lemma neumannFacets_frame:
  assumes "foldE (\<lambda>facet. foldE (neumannOuterFace bc) (outerFaces facet)) fs a = Inr b"
    and "h \<notin> set (concat (map (\<lambda>facet. map (\<lambda>f. Vertex.handle (vertex f))
                                        (outerFaces facet)) fs))"
  shows "b ! h = a ! h"
proof (rule foldE_preserves[OF assms(1), where g = "\<lambda>c. c ! h"])
  fix facet c d
  assume "facet \<in> set fs"
    and step: "foldE (neumannOuterFace bc) (outerFaces facet) c = Inr d"
  then have "h \<notin> set (map (\<lambda>f. Vertex.handle (vertex f)) (outerFaces facet))"
    using assms(2) by auto
  then show "d ! h = c ! h" using neumannOuterFaces_frame[OF step] by simp
qed

lemma neumannBoundaryAdder_frame:
  assumes "neumannBoundaryAdder bcs ind = Inr ind'"
    and "h \<notin> set (neumannHandles bcs)"
  shows "ind' ! h = ind ! h"
proof (rule foldE_preserves[OF assms(1)[unfolded neumannBoundaryAdder_def],
      where g = "\<lambda>c. c ! h"])
  fix bc c d
  assume "bc \<in> set bcs"
    and step: "foldE (\<lambda>facet. foldE (neumannOuterFace bc) (outerFaces facet))
                 (facets (boundary bc)) c = Inr d"
  then have "h \<notin> set (concat (map (\<lambda>facet. map (\<lambda>f. Vertex.handle (vertex f))
                                        (outerFaces facet)) (facets (boundary bc))))"
    using assms(2) by (auto simp: neumannHandles_def)
  then show "d ! h = c ! h" using neumannFacets_frame[OF step] by simp
qed

lemma foldE_writes:
  assumes "foldE f xs s = Inr s'"
    and "\<And>x a b. x \<in> set xs \<Longrightarrow> f x a = Inr b \<Longrightarrow> p b = foldl g (p a) (W x)"
  shows "p s' = foldl g (p s) (concat (map W xs))"
  using assms
proof (induction xs arbitrary: s)
  case Nil
  then show ?case by simp
next
  case (Cons x xs)
  from Cons.prems(1) obtain s1 where s1: "f x s = Inr s1" and rest: "foldE f xs s1 = Inr s'"
    by (cases "f x s") simp_all
  have "p s1 = foldl g (p s) (W x)" using Cons.prems(2)[OF _ s1] by simp
  moreover have "p s' = foldl g (p s1) (concat (map W xs))"
    using Cons.IH[OF rest] Cons.prems(2) by simp
  ultimately show ?case by simp
qed

lemma foldE_writes1:
  assumes "foldE f xs s = Inr s'"
    and "\<And>x a b. x \<in> set xs \<Longrightarrow> f x a = Inr b \<Longrightarrow> p b = g (p a) (w x)"
  shows "p s' = foldl g (p s) (map w xs)"
proof -
  have "p s' = foldl g (p s) (concat (map (\<lambda>x. [w x]) xs))"
    by (rule foldE_writes[OF assms(1)]) (simp add: assms(2))
  moreover have "concat (map (\<lambda>x. [w x]) xs) = map w xs" by (induction xs) simp_all
  ultimately show ?thesis by simp
qed

lemma propertyOf_Inr: "getProperty pd h name = Inr v \<Longrightarrow> propertyOf pd h name = v"
  by (simp add: propertyOf_def)

lemma internalHeatGeneration_writes:
  assumes "internalHeatGeneration pd es rs a = Inr a'"
  shows "a' = foldl assign a (heatGenerationWrites pd es rs)"
  unfolding heatGenerationWrites_def
proof (rule foldE_writes[OF assms[unfolded internalHeatGeneration_def], where p = "\<lambda>x. x"])
  fix r b c
  assume "heatGenerationRegion pd es r b = Inr c"
  then obtain q where q: "getProperty pd (Region.handle r) ''InternalHeatGeneration'' = Inr q"
    and f: "foldE (heatGenerationElement es q) (Region.elements r) b = Inr c"
    by (auto simp: heatGenerationRegion_def bindE_eq_Inr)
  show "c = foldl assign b (concat (map (\<lambda>i.
         map (\<lambda>v. (Vertex.handle v,
                   volume v * propertyOf pd (Region.handle r) ''InternalHeatGeneration''))
           (Element.vertices (es ! i))) (Region.elements r)))"
  proof (rule foldE_writes[OF f, where p = "\<lambda>x. x"])
    fix i d e
    assume "heatGenerationElement es q i d = Inr e"
    then have g: "foldE (heatGenerationVertex q) (Element.vertices (es ! i)) d = Inr e"
      by (auto simp: heatGenerationElement_def bindE_eq_Inr getItem_Inr)
    show "e = foldl assign d (map (\<lambda>v. (Vertex.handle v,
                   volume v * propertyOf pd (Region.handle r) ''InternalHeatGeneration''))
           (Element.vertices (es ! i)))"
      by (rule foldE_writes1[OF g, where p = "\<lambda>x. x"])
         (auto simp: heatGenerationVertex_def setItem_Inr assign_def propertyOf_Inr[OF q])
  qed
qed

lemma dirichletBoundaryAdder_writes:
  assumes "dirichletBoundaryAdder bcs a = Inr a'"
  shows "a' = foldl assign a (dirichletWrites bcs)"
  unfolding dirichletWrites_def
proof (rule foldE_writes[OF assms[unfolded dirichletBoundaryAdder_def], where p = "\<lambda>x. x"])
  fix bc b c
  assume f: "foldE (dirichletVertex bc) (Boundary.vertices (boundary bc)) b = Inr c"
  show "c = foldl assign b (map (\<lambda>v. (Vertex.handle v, getValue bc (Vertex.handle v)))
                              (Boundary.vertices (boundary bc)))"
    by (rule foldE_writes1[OF f, where p = "\<lambda>x. x"])
       (auto simp: dirichletVertex_def setItem_Inr assign_def)
qed

lemma neumannBoundaryAdder_writes:
  assumes "neumannBoundaryAdder bcs a = Inr a'"
  shows "a' = foldl accumulate a (neumannAdditions bcs)"
  unfolding neumannAdditions_def
proof (rule foldE_writes[OF assms[unfolded neumannBoundaryAdder_def], where p = "\<lambda>x. x"])
  fix bc b c
  assume f: "foldE (\<lambda>facet. foldE (neumannOuterFace bc) (outerFaces facet))
               (facets (boundary bc)) b = Inr c"
  show "c = foldl accumulate b (concat (map (\<lambda>facet.
         map (\<lambda>f. (Vertex.handle (vertex f),
                   - 1 * getValue bc (OuterFace.handle f)
                     * linalg_norm (getCoordinates (OuterFace.area f))))
           (outerFaces facet)) (facets (boundary bc))))"
  proof (rule foldE_writes[OF f, where p = "\<lambda>x. x"])
    fix facet d e
    assume g: "foldE (neumannOuterFace bc) (outerFaces facet) d = Inr e"
    show "e = foldl accumulate d (map (\<lambda>f. (Vertex.handle (vertex f),
                   - 1 * getValue bc (OuterFace.handle f)
                     * linalg_norm (getCoordinates (OuterFace.area f))))
           (outerFaces facet))"
      by (rule foldE_writes1[OF g, where p = "\<lambda>x. x"])
         (auto simp: neumannOuterFace_def bindE_eq_Inr setItem_Inr getItem_Inr accumulate_def)
  qed
qed

lemma transientVertex_writes:
  assumes "transientVertex first old acc element lm lv im = Inr im'"
  shows "fst im' = accumulate (fst im)
           (Vertex.handle (snd lv),
            subelementVolumes element ! fst lv * acc * old ! Vertex.handle (snd lv))"
  using assms
  by (cases lv; cases im)
     (auto simp: transientVertex_def Let_def bindE_eq_Inr setItem_Inr getItem_Inr
        accumulate_def split: if_splits)

lemma transientTermAndDiffusiveFlux_writes:
  assumes "transientTermAndDiffusiveFlux pd dt first old es rs im = Inr im'"
  shows "fst im' = foldl accumulate (fst im) (transientAdditions pd dt old es rs)"
  unfolding transientAdditions_def
proof (rule foldE_writes[OF assms[unfolded transientTermAndDiffusiveFlux_def],
      where p = fst])
  fix r b c
  assume "transientRegion pd dt first old es r b = Inr c"
  then obtain density heatCapacity k where
      d: "getProperty pd (Region.handle r) ''Density'' = Inr density"
    and hc: "getProperty pd (Region.handle r) ''HeatCapacity'' = Inr heatCapacity"
    and f: "foldE (transientElement first old es k (density * heatCapacity / dt))
              (Region.elements r) b = Inr c"
    by (auto simp: transientRegion_def bindE_eq_Inr pydiv_def split: if_splits)
  show "fst c = foldl accumulate (fst b) (concat (map (\<lambda>i.
         map (\<lambda>lv. (Vertex.handle (snd lv),
                    subelementVolumes (es ! i) ! fst lv
                      * (propertyOf pd (Region.handle r) ''Density''
                           * propertyOf pd (Region.handle r) ''HeatCapacity'' / dt)
                      * old ! Vertex.handle (snd lv)))
           (enumerate 0 (Element.vertices (es ! i)))) (Region.elements r)))"
    unfolding propertyOf_Inr[OF d] propertyOf_Inr[OF hc]
  proof (rule foldE_writes[OF f, where p = fst])
    fix i d e
    assume "transientElement first old es k (density * heatCapacity / dt) i d = Inr e"
    then obtain lm where
      g: "foldE (transientVertex first old (density * heatCapacity / dt) (es ! i) lm)
            (enumerate 0 (Element.vertices (es ! i))) d = Inr e"
      by (auto simp: transientElement_def bindE_eq_Inr getItem_Inr)
    show "fst e = foldl accumulate (fst d)
            (map (\<lambda>lv. (Vertex.handle (snd lv),
                    subelementVolumes (es ! i) ! fst lv * (density * heatCapacity / dt)
                      * old ! Vertex.handle (snd lv)))
               (enumerate 0 (Element.vertices (es ! i))))"
      by (rule foldE_writes1[OF g, where p = fst]) (rule transientVertex_writes)
  qed
qed

lemma length_foldl_assign: "length (foldl assign a ws) = length a"
  by (induction ws arbitrary: a) (simp_all add: assign_def)

lemma length_foldl_accumulate: "length (foldl accumulate a ws) = length a"
  by (induction ws arbitrary: a) (simp_all add: accumulate_def)

lemma length_rebuiltIndependent:
  "length (rebuiltIndependent self) = length (Grid.vertices (grid self))"
  by (simp add: rebuiltIndependent_def Let_def length_foldl_assign length_foldl_accumulate)

text \<open>
  C4. Whenever addToLinearSystem returns, the independent vector it leaves is the
  vector rebuilt from zeros: one zero per vertex, to which the writes of the heat
  generation, the additions of the transient term, the additions of the Neumann
  conditions and the writes of the Dirichlet conditions are applied in this order, on
  the first iteration as on every later one. It does not depend on the independent
  vector the call started from, and the entry of a handle that no region and no
  boundary condition visits is zero. No attribute but the independent vector and the
  matrix changes, and on an iteration other than the first the matrix is left as it was.
\<close>

theorem addToLinearSystem_later_iterations:
  assumes run: "addToLinearSystem self = Inr self'"
  shows "independent self' = rebuiltIndependent self
       \<and> length (independent self') = length (Grid.vertices (grid self))
       \<and> self' = self\<lparr>independent := independent self', matrix := matrix self'\<rparr>
       \<and> (\<forall>ind0. addToLinearSystem (self\<lparr>independent := ind0\<rparr>) = Inr self')
       \<and> (\<forall>h<length (Grid.vertices (grid self)).
             h \<notin> set (concat (map (regionHandles (Grid.elements (grid self)))
                                  (regions (grid self))))
                   \<union> set (neumannHandles (neumannBoundaries (problemData self)))
                   \<union> set (dirichletHandles (dirichletBoundaries (problemData self)))
             \<longrightarrow> independent self' ! h = 0)
       \<and> (1 \<le> iteration self \<longrightarrow> matrix self' = matrix self)"
proof -
  let ?pd = "problemData self" and ?n = "length (Grid.vertices (grid self))"
  let ?es = "Grid.elements (grid self)" and ?rs = "regions (grid self)"
  let ?first = "iteration self = 0"
  from run obtain ind1 im ind3 ind4 m5 where
      p1: "internalHeatGeneration ?pd ?es ?rs (replicate ?n 0) = Inr ind1"
    and p2: "transientTermAndDiffusiveFlux ?pd (Timer.timeStep (timer self)) ?first
               (oldTemperature self) ?es ?rs (ind1, matrix self) = Inr im"
    and p3: "neumannBoundaryAdder (neumannBoundaries ?pd) (fst im) = Inr ind3"
    and p4: "dirichletBoundaryAdder (dirichletBoundaries ?pd) ind3 = Inr ind4"
    and p5: "(if ?first then dirichletRows ?n (dirichletBoundaries ?pd) (snd im)
              else Inr (snd im)) = Inr m5"
    and self': "self' = self\<lparr>independent := ind4, matrix := m5\<rparr>"
    by (auto simp: addToLinearSystem_def Let_def bindE_eq_Inr)
  have w1: "ind1 = foldl assign (replicate ?n 0) (heatGenerationWrites ?pd ?es ?rs)"
    using internalHeatGeneration_writes[OF p1] .
  have w2: "fst im = foldl accumulate ind1
              (transientAdditions ?pd (Timer.timeStep (timer self)) (oldTemperature self)
                 ?es ?rs)"
    using transientTermAndDiffusiveFlux_writes[OF p2] by simp
  have w3: "ind3 = foldl accumulate (fst im) (neumannAdditions (neumannBoundaries ?pd))"
    using neumannBoundaryAdder_writes[OF p3] .
  have w4: "ind4 = foldl assign ind3 (dirichletWrites (dirichletBoundaries ?pd))"
    using dirichletBoundaryAdder_writes[OF p4] .
  have rebuilt: "ind4 = rebuiltIndependent self"
    unfolding w4 w3 w2 w1 by (simp add: rebuiltIndependent_def Let_def)
  have len: "length ind4 = ?n"
    using rebuilt length_rebuiltIndependent by simp
  have same: "addToLinearSystem (self\<lparr>independent := ind0\<rparr>) = addToLinearSystem self"
    for ind0
    by (simp add: addToLinearSystem_def Let_def)
  have zero: "ind4 ! h = 0"
    if "h < ?n"
      and "h \<notin> set (concat (map (regionHandles ?es) ?rs))
                 \<union> set (neumannHandles (neumannBoundaries ?pd))
                 \<union> set (dirichletHandles (dirichletBoundaries ?pd))" for h
  proof -
    have "ind4 ! h = ind3 ! h"
      using overwrites_subset[OF overwrites_dirichletHandles p4] that(2) by blast
    also have "\<dots> = fst im ! h"
      using neumannBoundaryAdder_frame[OF p3] that(2) by blast
    also have "\<dots> = ind1 ! h"
      using transientTermAndDiffusiveFlux_frame[OF p2, of h] that(2) by simp
    also have "\<dots> = replicate ?n 0 ! h"
      using overwrites_subset[OF overwrites_internalHeatGeneration p1] that(2) by blast
    finally show ?thesis using that(1) by simp
  qed
  have m: "matrix self' = matrix self" if "1 \<le> iteration self"
  proof -
    from that have nz: "\<not> ?first" by simp
    have "snd im = matrix self"
      using transientTermAndDiffusiveFlux_later[OF p2[unfolded eq_False[THEN iffD2, OF nz]]]
      by simp
    then show ?thesis using p5 nz self' by simp
  qed
  show ?thesis
    using self' rebuilt len same run zero m by simp
qed

theorem addToLinearSystem_later_iterations_witness:
  "iteration exampleLater = 1
   \<and> addToLinearSystem exampleLater = Inr (exampleLater\<lparr>independent := [1, 1, 4, 6, 0]\<rparr>)
   \<and> rebuiltIndependent exampleLater = [1, 1, 4, 6, 0]
   \<and> matrix (exampleLater\<lparr>independent := [1, 1, 4, 6, 0]\<rparr>) = matrix exampleLater
   \<and> addToLinearSystem (exampleLater\<lparr>independent := [3, 3, 3, 3, 3]\<rparr>)
       = Inr (exampleLater\<lparr>independent := [1, 1, 4, 6, 0]\<rparr>)"
proof -
  let ?s' = "exampleLater\<lparr>independent := [1, 1, 4, 6, 0]\<rparr>"
  have later: "iteration exampleLater = 1"
    by (simp add: exampleLater_def exampleWithOrphan_def exampleSolver_def)
  have run: "addToLinearSystem exampleLater = Inr ?s'"
    by (simp add: exampleLater_def exampleNeumann_def exampleWithOrphan_def example_defs
        numpy_defs localMatrix_defs assembly_defs upt_rec numeral_nat Let_def
        enumerate_eq_zip linalg_norm_def neumannOuterFace_def)
  from addToLinearSystem_later_iterations[OF run] later run show ?thesis
    by simp
qed

section \<open>The main loop\<close>

lemma addToLinearSystem_frame:
  assumes "addToLinearSystem s = Inr s'"
  shows "iteration s' = iteration s \<and> problemData s' = problemData s
       \<and> cgnsSaver s' = cgnsSaver s \<and> converged s' = converged s"
  using assms by (auto simp: addToLinearSystem_def Let_def bindE_eq_Inr)

lemma solveLinearSystem_frame:
  assumes "solveLinearSystem solve s = Inr s'"
  shows "iteration s' = iteration s \<and> problemData s' = problemData s
       \<and> cgnsSaver s' = cgnsSaver s"
  using assms by (auto simp: solveLinearSystem_def bindE_eq_Inr)

lemma checkConvergence_frame:
  assumes "checkConvergence s = Inr cs"
  shows "iteration (snd cs) = iteration s \<and> problemData (snd cs) = problemData s
       \<and> cgnsSaver (snd cs) = cgnsSaver s"
  using assms by (auto simp: checkConvergence_def Let_def bindE_eq_Inr)

lemma loopBody_step:
  assumes "loopBody solve s = Inr s'"
  shows "iteration s' = iteration s + 1 \<and> problemData s' = problemData s
       \<and> length (saved (cgnsSaver s')) = length (saved (cgnsSaver s)) + 1"
proof -
  from assms obtain s1 s2 cs where
      s1: "addToLinearSystem s = Inr s1"
    and s2: "solveLinearSystem solve s1 = Inr s2"
    and cs: "checkConvergence
               (s2\<lparr>timer := incrementTime (timer s2),
                   cgnsSaver := save (cgnsSaver s2) (numericalTemperature s2)
                                  (getCurrentTime (incrementTime (timer s2)))\<rparr>) = Inr cs"
    and s': "s' = (snd cs)\<lparr>converged := fst cs, iteration := iteration (snd cs) + 1\<rparr>"
    by (auto simp: loopBody_def Let_def bindE_eq_Inr)
  show ?thesis
    using addToLinearSystem_frame[OF s1] solveLinearSystem_frame[OF s2]
      checkConvergence_frame[OF cs] s'
    by (simp add: save_def)
qed

lemma iterateBody_step:
  assumes "iterateBody solve n s = Inr s'"
  shows "iteration s' = iteration s + n \<and> problemData s' = problemData s
       \<and> length (saved (cgnsSaver s')) = length (saved (cgnsSaver s)) + n"
  using assms
proof (induction n arbitrary: s)
  case 0
  then show ?case by simp
next
  case (Suc n)
  from Suc.prems obtain s1 where s1: "loopBody solve s = Inr s1"
    and rest: "iterateBody solve n s1 = Inr s'"
    by (cases "loopBody solve s") simp_all
  show ?case using Suc.IH[OF rest] loopBody_step[OF s1] by simp
qed

lemma run_exit:
  assumes "run solve s = Inr s'"
  shows "converged s' \<or> maxNumberOfIterations (problemData s') \<le> int (iteration s')"
  using assms
proof (induction solve s rule: run.induct)
  case (1 solve s)
  show ?case
  proof (cases "\<not> converged s
      \<and> int (iteration s) < maxNumberOfIterations (problemData s)")
    case False
    then have "run solve s = Inr s" by (auto simp: run.simps[of solve s])
    with "1.prems" False show ?thesis by auto
  next
    case True
    with "1.prems" obtain s1 where s1: "loopBody solve s = Inr s1"
      and rest: "run solve s1 = Inr s'"
      by (cases "loopBody solve s") (simp_all add: run.simps[of solve s])
    show ?thesis using "1.IH"[OF True s1 rest] .
  qed
qed

lemma run_iterateBody:
  "\<exists>n. int n \<le> max 0 (maxNumberOfIterations (problemData s) - int (iteration s))
       \<and> run solve s = iterateBody solve n s
       \<and> (\<forall>k<n. \<forall>sk. iterateBody solve k s = Inr sk \<longrightarrow>
             \<not> converged sk \<and> int (iteration sk) < maxNumberOfIterations (problemData s))"
proof (induction solve s rule: run.induct)
  case (1 solve s)
  let ?M = "maxNumberOfIterations (problemData s)"
  show ?case
  proof (cases "\<not> converged s \<and> int (iteration s) < ?M")
    case False
    then have "run solve s = iterateBody solve 0 s" by (auto simp: run.simps[of solve s])
    then show ?thesis by (intro exI[of _ 0]) simp
  next
    case guard: True
    show ?thesis
    proof (cases "loopBody solve s")
      case (Inl e)
      then have "run solve s = iterateBody solve 1 s"
        using guard by (simp add: run.simps[of solve s])
      moreover have "int 1 \<le> max 0 (?M - int (iteration s))" using guard by simp
      moreover have "\<forall>k<1. \<forall>sk. iterateBody solve k s = Inr sk \<longrightarrow>
             \<not> converged sk \<and> int (iteration sk) < ?M"
        using guard by simp
      ultimately show ?thesis by (intro exI[of _ 1]) blast
    next
      case (Inr s1)
      note step = loopBody_step[OF Inr]
      from "1.IH"[OF guard Inr] obtain n where
          n1: "int n \<le> max 0 (maxNumberOfIterations (problemData s1) - int (iteration s1))"
        and n2: "run solve s1 = iterateBody solve n s1"
        and n3: "\<forall>k<n. \<forall>sk. iterateBody solve k s1 = Inr sk \<longrightarrow>
             \<not> converged sk
             \<and> int (iteration sk) < maxNumberOfIterations (problemData s1)"
        by blast
      have r: "run solve s = iterateBody solve (Suc n) s"
        using guard Inr n2 by (simp add: run.simps[of solve s])
      have bound: "int (Suc n) \<le> max 0 (?M - int (iteration s))"
        using n1 step guard by simp
      have early: "\<forall>k<Suc n. \<forall>sk. iterateBody solve k s = Inr sk \<longrightarrow>
             \<not> converged sk \<and> int (iteration sk) < ?M"
      proof (intro allI impI)
        fix k sk assume k: "k < Suc n" and sk: "iterateBody solve k s = Inr sk"
        show "\<not> converged sk \<and> int (iteration sk) < ?M"
        proof (cases k)
          case 0
          then show ?thesis using sk guard by simp
        next
          case (Suc k')
          then have "k' < n" "iterateBody solve k' s1 = Inr sk"
            using k sk Inr by simp_all
          then show ?thesis using n3 step by simp
        qed
      qed
      show ?thesis using r bound early by (intro exI[of _ "Suc n"]) blast
    qed
  qed
qed

lemma settings_initial:
  assumes "settings jacobianOf pd g = Inr s0"
  shows "iteration s0 = 0 \<and> \<not> converged s0 \<and> problemData s0 = pd
       \<and> saved (cgnsSaver s0) = [] \<and> \<not> finalized (cgnsSaver s0)"
  using assms by (auto simp: settings_def Let_def bindE_eq_Inr newCgnsSaver_def)

text \<open>
  C8. From the state that settings leaves, the loop of run makes some number \<open>n\<close> of passes
  of its body, at most maxNumberOfIterations of them (none when the cap is not
  positive); before each pass the run had not converged and the iteration count was
  below the cap. When the loop returns, the iteration count and the number of saved
  fields are \<open>n\<close>, the run has converged or the cap is reached, and in either case the
  constructor goes on to finalize: reaching the cap without convergence raises nothing.
\<close>

theorem run_at_most_maxNumberOfIterations:
  assumes "settings jacobianOf pd g = Inr s0"
  shows "\<exists>n. int n \<le> max 0 (maxNumberOfIterations pd)
       \<and> run solve s0 = iterateBody solve n s0
       \<and> (\<forall>k<n. \<forall>sk. iterateBody solve k s0 = Inr sk \<longrightarrow>
             \<not> converged sk \<and> int (iteration sk) < maxNumberOfIterations pd)
       \<and> (\<forall>s1. run solve s0 = Inr s1 \<longrightarrow>
             iteration s1 = n
             \<and> length (saved (cgnsSaver s1)) = n
             \<and> (converged s1 \<or> maxNumberOfIterations pd \<le> int n)
             \<and> HeatTransfer2D_init jacobianOf solve pd g = Inr (finalize s1)
             \<and> finalized (cgnsSaver (finalize s1)))"
proof -
  note init = settings_initial[OF assms]
  from run_iterateBody[of s0 solve] obtain n where
      n1: "int n \<le> max 0 (maxNumberOfIterations (problemData s0) - int (iteration s0))"
    and n2: "run solve s0 = iterateBody solve n s0"
    and n3: "\<forall>k<n. \<forall>sk. iterateBody solve k s0 = Inr sk \<longrightarrow>
             \<not> converged sk \<and> int (iteration sk) < maxNumberOfIterations (problemData s0)"
    by blast
  have fin: "iteration s1 = n
             \<and> length (saved (cgnsSaver s1)) = n
             \<and> (converged s1 \<or> maxNumberOfIterations pd \<le> int n)
             \<and> HeatTransfer2D_init jacobianOf solve pd g = Inr (finalize s1)
             \<and> finalized (cgnsSaver (finalize s1))"
    if run: "run solve s0 = Inr s1" for s1
  proof -
    have it: "iterateBody solve n s0 = Inr s1" using run n2 by simp
    have "HeatTransfer2D_init jacobianOf solve pd g = Inr (finalize s1)"
      using run assms by (simp add: HeatTransfer2D_init_def)
    moreover have "finalized (cgnsSaver (finalize s1))"
      by (simp add: finalize_def CgnsSaver_finalize_def)
    ultimately show ?thesis
      using iterateBody_step[OF it] run_exit[OF run] init by simp
  qed
  have b: "int n \<le> max 0 (maxNumberOfIterations pd)" using n1 init by simp
  have e: "\<forall>k<n. \<forall>sk. iterateBody solve k s0 = Inr sk \<longrightarrow>
             \<not> converged sk \<and> int (iteration sk) < maxNumberOfIterations pd"
    using n3 init by simp
  show ?thesis
    using b n2 e fin by (intro exI[of _ n]) blast
qed

theorem run_at_most_maxNumberOfIterations_witness:
  "\<exists>s0 s1. settings exampleJacobian exampleProblemData exampleGrid = Inr s0
      \<and> run (\<lambda>m b. Inr b) s0 = Inr s1
      \<and> \<not> converged s1
      \<and> iteration s1 = 1
      \<and> maxNumberOfIterations exampleProblemData = 1
      \<and> HeatTransfer2D_init exampleJacobian (\<lambda>m b. Inr b) exampleProblemData exampleGrid
          = Inr (finalize s1)
      \<and> finalized (cgnsSaver (finalize s1))"
proof -
  have "\<exists>s0. settings exampleJacobian exampleProblemData exampleGrid = Inr s0
          \<and> (\<exists>s1. run (\<lambda>m b. Inr b) s0 = Inr s1 \<and> \<not> converged s1 \<and> iteration s1 = 1)"
    by (simp add: settings_def refreshElement_def refreshInnerFace_def exampleJacobian_def
        vertexCoordinates_def Triangle_innerFaceShapeFunctionDerivatives_def
        run.simps loopBody_def solveLinearSystem_def checkConvergence_def pymax_def
        newTimer_def incrementTime_def getCurrentTime_def save_def newCgnsSaver_def
        example_defs numpy_defs localMatrix_defs assembly_defs upt_rec numeral_nat Let_def
        enumerate_eq_zip)
  then obtain s0 s1 where
      s0: "settings exampleJacobian exampleProblemData exampleGrid = Inr s0"
    and s1: "run (\<lambda>m b. Inr b) s0 = Inr s1" "\<not> converged s1" "iteration s1 = 1"
    by blast
  from run_at_most_maxNumberOfIterations[OF s0, of "\<lambda>m b. Inr b"] s1(1)
  have "HeatTransfer2D_init exampleJacobian (\<lambda>m b. Inr b) exampleProblemData exampleGrid
          = Inr (finalize s1)
        \<and> finalized (cgnsSaver (finalize s1))"
    by blast
  moreover have "maxNumberOfIterations exampleProblemData = 1"
    by (simp add: exampleProblemData_def)
  ultimately show ?thesis using s0 s1 by blast
qed

end
